theory Spec2Isabelle
  imports Complex_Main "HOL-Library.Word" "HOL-Library.Sublist"
begin

section \<open>The viewer component \<open>OcctImportDemo.vue\<close>\<close>

text \<open>
  The component reads a CAD file, hands its bytes to the import library
  (occt-import-js), turns every mesh record of the result into a three.js mesh,
  fits the camera to the meshes and releases the GPU objects on teardown.
  The embedding follows \<open>src/occt-vue-demo/src/components/OcctImportDemo.vue\<close>;
  the Options-API text of the same component has the same control flow and
  differs in the wording of its messages, which is remarked where it matters.

  JavaScript numbers are modelled as \<open>real\<close> (positions, colours, camera) and as
  \<open>nat\<close> (array lengths, indices, colour bytes); the rounding of doubles and of the
  32-bit floats of a \<open>Float32Array\<close>, infinities and \<open>NaN\<close> are not modelled.
  \<open>undefined\<close>/\<open>null\<close> is \<open>None\<close>. The handlers \<open>handleFileUpload\<close>,
  \<open>onWindowResize\<close> and \<open>onMounted\<close> only prepare states (a file name and its bytes,
  an aspect ratio, a scene); the statements below hold for every such state.
\<close>

subsection \<open>The import result (occt-import-js)\<close>

text \<open>An object \<open>{ array: [...] }\<close>; the field may be missing.\<close>

record 'a arrayHolder =
  array :: "'a list option"

record attributes =
  position :: "real arrayHolder option"
  normal :: "real arrayHolder option"

record meshData =
  name :: "string option"
  attributes :: "attributes option"
  index :: "nat arrayHolder option"
  color :: "nat list option"

record importResult =
  success :: bool
  error :: "string option"
  meshes :: "meshData list option"

text \<open>\<open>meshData.attributes?.position?.array\<close>, \<open>meshData.index?.array\<close> and
  \<open>meshData.attributes.normal?.array\<close>. An array is truthy even when it is empty,
  so the test \<open>!x\<close> of the source is \<open>x = None\<close>.\<close>

definition position_array :: "meshData \<Rightarrow> real list option" where
  "position_array meshData =
     Option.bind (Option.bind (attributes meshData) position) array"

definition index_array :: "meshData \<Rightarrow> nat list option" where
  "index_array meshData = Option.bind (index meshData) array"

definition normal_array :: "meshData \<Rightarrow> real list option" where
  "normal_array meshData =
     Option.bind (Option.bind (attributes meshData) normal) array"

text \<open>String conversion of a possibly undefined string, as \<open>+\<close> and template
  literals do it.\<close>

definition js_string :: "string option \<Rightarrow> string" where
  "js_string s = (case s of None \<Rightarrow> ''undefined'' | Some t \<Rightarrow> t)"

subsection \<open>Objects of the rendering library (three.js)\<close>

datatype vec3 = Vector3 real real real

fun vec_x :: "vec3 \<Rightarrow> real" where "vec_x (Vector3 a b c) = a"
fun vec_y :: "vec3 \<Rightarrow> real" where "vec_y (Vector3 a b c) = b"
fun vec_z :: "vec3 \<Rightarrow> real" where "vec_z (Vector3 a b c) = c"

fun vec_add :: "vec3 \<Rightarrow> vec3 \<Rightarrow> vec3" where
  "vec_add (Vector3 a b c) (Vector3 a' b' c') = Vector3 (a + a') (b + b') (c + c')"

fun vec_sub :: "vec3 \<Rightarrow> vec3 \<Rightarrow> vec3" where
  "vec_sub (Vector3 a b c) (Vector3 a' b' c') = Vector3 (a - a') (b - b') (c - c')"

fun vec_scale :: "real \<Rightarrow> vec3 \<Rightarrow> vec3" where
  "vec_scale k (Vector3 a b c) = Vector3 (k * a) (k * b) (k * c)"

fun vec_length :: "vec3 \<Rightarrow> real" where
  "vec_length (Vector3 a b c) = sqrt (a * a + b * b + c * c)"

text \<open>A typed index array. \<open>new Uint16Array(xs)\<close> stores every element modulo
  \<open>2^16\<close>, \<open>new Uint32Array(xs)\<close> modulo \<open>2^32\<close>: the words below.\<close>

datatype indexArray =
    is_Uint16Array: Uint16Array "16 word list"
  | is_Uint32Array: Uint32Array "32 word list"

datatype normalAttribute = NormalArray "real list" | ComputedVertexNormals

text \<open>The argument the material's colour is built from: three channels, or a
  hexadecimal literal.\<close>

datatype colorArg = Color3 real real real | ColorHex nat

record bufferGeometry =
  positionAttribute :: "real list"
  normalAttribute :: normalAttribute
  indexAttribute :: indexArray

record meshStandardMaterial =
  materialColor :: colorArg
  doubleSide :: bool

text \<open>Every \<open>new THREE.Mesh(geometry, material)\<close> of \<open>renderModel\<close> makes one
  geometry, one material and one mesh; \<open>mesh_id\<close> is the identity of the three
  objects made together.\<close>

record mesh =
  mesh_id :: nat
  geometry :: bufferGeometry
  material :: meshStandardMaterial

subsection \<open>Building one mesh (body of the \<open>forEach\<close> callback of \<open>renderModel\<close>)\<close>

text \<open>\<open>positions.length / 3 > 65535 ? Uint32Array : Uint16Array\<close>. The division is
  the division of numbers, not integer division.\<close>

definition indices_of :: "real list \<Rightarrow> nat list \<Rightarrow> indexArray" where
  "indices_of positions index_arr =
     (if real (length positions) / 3 > 65535
      then Uint32Array (map word_of_nat index_arr)
      else Uint16Array (map word_of_nat index_arr))"

definition material_of :: "meshData \<Rightarrow> meshStandardMaterial" where
  "material_of meshData =
     (case color meshData of
        Some cs \<Rightarrow>
          if length cs = 3
          then \<lparr>materialColor =
                  Color3 (real (cs ! 0) / 255) (real (cs ! 1) / 255) (real (cs ! 2) / 255),
                doubleSide = True\<rparr>
          else \<lparr>materialColor = ColorHex 0xcccccc, doubleSide = True\<rparr>
      | None \<Rightarrow> \<lparr>materialColor = ColorHex 0xcccccc, doubleSide = True\<rparr>)"

definition geometry_of :: "meshData \<Rightarrow> real list \<Rightarrow> nat list \<Rightarrow> bufferGeometry" where
  "geometry_of meshData positions index_arr =
     \<lparr>positionAttribute = positions,
      normalAttribute =
        (case normal_array meshData of
           Some normals \<Rightarrow> NormalArray normals
         | None \<Rightarrow> ComputedVertexNormals),
      indexAttribute = indices_of positions index_arr\<rparr>"

subsection \<open>Bounding boxes\<close>

text \<open>Modelled from the spec: \<open>THREE.Box3\<close> belongs to the rendering library and is
  not under src/. The spec's bounding box is the minimal axis-aligned box containing
  a set of geometry, and the box of a model is the union of the boxes of its meshes.
  A box is its two corners \<open>(min, max)\<close>; \<open>None\<close> is the empty box (the library
  stores it as \<open>min = +\<infinity>\<close>, \<open>max = -\<infinity>\<close>), so \<open>isEmpty\<close> is \<open>= None\<close>.\<close>

type_synonym box3 = "(vec3 \<times> vec3) option"

fun vec_min :: "vec3 \<Rightarrow> vec3 \<Rightarrow> vec3" where
  "vec_min (Vector3 a b c) (Vector3 a' b' c') = Vector3 (min a a') (min b b') (min c c')"

fun vec_max :: "vec3 \<Rightarrow> vec3 \<Rightarrow> vec3" where
  "vec_max (Vector3 a b c) (Vector3 a' b' c') = Vector3 (max a a') (max b b') (max c c')"

fun expandByPoint :: "box3 \<Rightarrow> vec3 \<Rightarrow> box3" where
  "expandByPoint None p = Some (p, p)"
| "expandByPoint (Some (lo, hi)) p = Some (vec_min lo p, vec_max hi p)"

fun union_box :: "box3 \<Rightarrow> box3 \<Rightarrow> box3" where
  "union_box None b = b"
| "union_box (Some a) None = Some a"
| "union_box (Some (lo, hi)) (Some (lo', hi')) = Some (vec_min lo lo', vec_max hi hi')"

text \<open>The vertices of a flat position array with item size 3. The length of the
  array is a multiple of 3 in the data model; a trailing rest of one or two numbers
  (for which the library would read past the end of the array) gives no vertex here.\<close>

fun vertices :: "real list \<Rightarrow> vec3 list" where
  "vertices (a # b # c # rest) = Vector3 a b c # vertices rest"
| "vertices _ = []"

text \<open>\<open>new THREE.Box3().setFromObject(mesh)\<close> for a mesh whose transform is the
  identity, as all meshes of the model group are.\<close>

definition setFromObject :: "mesh \<Rightarrow> box3" where
  "setFromObject m = foldl expandByPoint None (vertices (positionAttribute (geometry m)))"

definition isEmpty :: "box3 \<Rightarrow> bool" where
  "isEmpty b = (b = None)"

fun getCenter :: "box3 \<Rightarrow> vec3" where
  "getCenter None = Vector3 0 0 0"
| "getCenter (Some (Vector3 a b c, Vector3 a' b' c')) =
     Vector3 ((a + a') * 0.5) ((b + b') * 0.5) ((c + c') * 0.5)"

fun getSize :: "box3 \<Rightarrow> vec3" where
  "getSize None = Vector3 0 0 0"
| "getSize (Some (Vector3 a b c, Vector3 a' b' c')) = Vector3 (a' - a) (b' - b) (c' - c)"

subsection \<open>State of the component\<close>

record canvas =
  clientWidth :: real
  clientHeight :: real

record scene =
  background :: nat

record perspectiveCamera =
  cam_position :: vec3
  cam_lookAt :: "vec3 option"
  fov :: real
  aspect :: real

record webGLRenderer =
  domElement :: "canvas option"

text \<open>The controller with the settings \<open>initThreeDScene\<close> gives it.\<close>

record orbitControls =
  target :: vec3
  enableDamping :: bool
  dampingFactor :: real
  screenSpacePanning :: bool
  minDistance :: real
  maxDistance :: real

text \<open>\<open>OrbitControls.update\<close> belongs to the rendering library. It works on the
  controller and on the camera the controller was made for, and leaves both changed:
  it has the last word on where the camera is. The operations of the component that
  call it take it as their parameter \<open>update\<close>, so that what is proved of them holds
  whatever the library does.\<close>

type_synonym orbit_update =
  "orbitControls \<Rightarrow> perspectiveCamera \<Rightarrow> orbitControls \<times> perspectiveCamera"

text \<open>Calls into the browser, the rendering library and the import library, in
  the order they are made.\<close>

datatype entryPoint = ReadStepFile | ReadIgesFile | ReadBrepFile

datatype call =
    RequestAnimationFrame nat
  | CancelAnimationFrame nat
  | Render
  | ControlsUpdate
  | ControlsDispose
  | RendererDispose
  | GroupAdd nat
  | GroupRemove nat
  | GeometryDispose nat
  | MaterialDispose nat
  | Occtimportjs
  | Import entryPoint

datatype consoleEntry = ConsoleWarn string | ConsoleError string

text \<open>The refs of the component carry the suffix \<open>_value\<close>; the plain variables
  \<open>scene\<close>, \<open>camera\<close>, \<open>renderer\<close>, \<open>controls\<close>, \<open>modelGroup\<close> keep their names.
  \<open>selectedFile_value\<close> is the file's name. The model group is a child of the scene;
  its children are kept once, under \<open>modelGroup\<close> (both variables are assigned together
  in \<open>initThreeDScene\<close> and dropped together in \<open>onBeforeUnmount\<close>). \<open>nextId\<close> numbers
  the meshes made so far and \<open>frameCounter\<close> the handles \<open>requestAnimationFrame\<close> has
  returned.\<close>

record state =
  selectedFile_value :: "string option"
  fileContent_value :: "8 word list option"
  loading_value :: bool
  result_value :: "importResult option"
  error_value :: "string option"
  animationFrameId_value :: "nat option"
  threeCanvas_value :: "canvas option"
  scene :: "scene option"
  camera :: "perspectiveCamera option"
  renderer :: "webGLRenderer option"
  controls :: "orbitControls option"
  modelGroup :: "mesh list option"
  calls :: "call list"
  console :: "consoleEntry list"
  nextId :: nat
  frameCounter :: nat

definition called :: "call list \<Rightarrow> state \<Rightarrow> state" where
  "called cs st = st\<lparr>calls := calls st @ cs\<rparr>"

subsection \<open>\<open>animate\<close>, \<open>initThreeDScene\<close>, \<open>clearModel\<close>, \<open>resetCameraView\<close>\<close>

text \<open>\<open>if (controls) controls.update()\<close>. The camera the controller moves is the
  object the variable \<open>camera\<close> refers to; were that variable \<open>null\<close>, only the call
  would be seen.\<close>

definition call_update :: "orbit_update \<Rightarrow> state \<Rightarrow> state" where
  "call_update update st =
     (case controls st of
        None \<Rightarrow> st
      | Some ctl \<Rightarrow>
          (case camera st of
             None \<Rightarrow> called [ControlsUpdate] st
           | Some cam \<Rightarrow>
               (case update ctl cam of
                  (ctl', cam') \<Rightarrow>
                    called [ControlsUpdate] (st\<lparr>camera := Some cam', controls := Some ctl'\<rparr>))))"

text \<open>One frame of the render loop.\<close>

definition animate :: "orbit_update \<Rightarrow> state \<Rightarrow> state" where
  "animate update st =
     (let h = Suc (frameCounter st);
          st1 = called [RequestAnimationFrame h]
                  (st\<lparr>animationFrameId_value := Some h, frameCounter := h\<rparr>);
          st2 = call_update update st1
      in if renderer st2 \<noteq> None \<and> scene st2 \<noteq> None \<and> camera st2 \<noteq> None
         then called [Render] st2 else st2)"

text \<open>A canvas of height 0 (aspect \<open>Infinity\<close> or \<open>NaN\<close> in JavaScript) is outside
  the model. The background colour of the scene is kept; its two lights and the size
  and pixel ratio of the renderer play no part below and are left out. \<open>initThreeDScene\<close> ends with the first call of \<open>animate\<close>.\<close>

definition initThreeDScene :: "orbit_update \<Rightarrow> state \<Rightarrow> state" where
  "initThreeDScene update st =
     (case threeCanvas_value st of
        None \<Rightarrow> st
      | Some cv \<Rightarrow>
          animate update
            (st\<lparr>scene := Some \<lparr>background = 0xf0f0f0\<rparr>,
                camera := Some \<lparr>cam_position = Vector3 5 5 5, cam_lookAt = None,
                                fov = 75, aspect = clientWidth cv / clientHeight cv\<rparr>,
                renderer := Some \<lparr>domElement = Some cv\<rparr>,
                controls := Some \<lparr>target = Vector3 0 0 0, enableDamping = True,
                                  dampingFactor = 0.25, screenSpacePanning = False,
                                  minDistance = 1, maxDistance = 500\<rparr>,
                modelGroup := Some []\<rparr>))"

text \<open>The \<open>while\<close> loop of \<open>clearModel\<close>: the first child is removed from the group,
  then its geometry and its material are disposed. The children of the group are the
  meshes \<open>renderModel\<close> made, each with a geometry and a single material.\<close>

fun clearModel_loop :: "mesh list \<Rightarrow> call list \<Rightarrow> mesh list \<times> call list" where
  "clearModel_loop [] cs = ([], cs)"
| "clearModel_loop (object # children) cs =
     clearModel_loop children
       (cs @ [GroupRemove (mesh_id object), GeometryDispose (mesh_id object),
              MaterialDispose (mesh_id object)])"

definition clearModel :: "state \<Rightarrow> state" where
  "clearModel st =
     (case modelGroup st of
        None \<Rightarrow> st
      | Some children \<Rightarrow>
          (case clearModel_loop children (calls st) of
             (children', cs) \<Rightarrow> st\<lparr>modelGroup := Some children', calls := cs\<rparr>))"

definition resetCameraView :: "orbit_update \<Rightarrow> state \<Rightarrow> state" where
  "resetCameraView update st =
     (let st1 = (case camera st of
                   None \<Rightarrow> st
                 | Some cam \<Rightarrow>
                     st\<lparr>camera := Some (cam\<lparr>cam_position := Vector3 5 5 5,
                                              cam_lookAt := Some (Vector3 0 0 0)\<rparr>)\<rparr>)
      in case controls st1 of
           None \<Rightarrow> st1
         | Some ctl \<Rightarrow>
             call_update update (st1\<lparr>controls := Some (ctl\<lparr>target := Vector3 0 0 0\<rparr>)\<rparr>))"

subsection \<open>\<open>renderModel\<close>\<close>

text \<open>The callback of \<open>importResult.meshes.forEach\<close>. It carries the locals \<open>bbox\<close>
  and \<open>firstMesh\<close> of \<open>renderModel\<close> along with the state. A record without
  \<open>attributes.position.array\<close> or without \<open>index.array\<close> is reported with
  \<open>console.warn\<close> and left out; the \<open>return\<close> ends this call of the callback only.
  (The Options-API text warns with another wording, and also when normals are
  computed.) \<open>modelGroup\<close> is not \<open>null\<close> here whenever \<open>scene\<close> is not.\<close>

definition renderModel_forEach ::
  "meshData \<Rightarrow> box3 \<times> bool \<times> state \<Rightarrow> box3 \<times> bool \<times> state" where
  "renderModel_forEach meshData acc =
     (case acc of (bbox, firstMesh, st) \<Rightarrow>
        if position_array meshData = None \<or> index_array meshData = None
        then (bbox, firstMesh,
              st\<lparr>console := console st @
                     [ConsoleWarn (''Skipping invalid mesh: '' @ js_string (name meshData))]\<rparr>)
        else
          let positions = the (position_array meshData);
              m = \<lparr>mesh_id = nextId st,
                   geometry = geometry_of meshData positions (the (index_array meshData)),
                   material = material_of meshData\<rparr>;
              st1 = called [GroupAdd (mesh_id m)]
                      (st\<lparr>modelGroup := map_option (\<lambda>children. children @ [m]) (modelGroup st),
                          nextId := Suc (nextId st)\<rparr>)
          in if firstMesh then (setFromObject m, False, st1)
             else (union_box bbox (setFromObject m), firstMesh, st1))"

text \<open>The branch \<open>!bbox.isEmpty()\<close> of \<open>renderModel\<close>: the camera is put at the
  fitting position and aimed at the centre of the box, the controller's target is set
  to the centre, and the controller's \<open>update\<close> runs. \<open>camera.fov\<close> is in degrees.\<close>

definition renderModel_fit :: "orbit_update \<Rightarrow> box3 \<Rightarrow> state \<Rightarrow> state" where
  "renderModel_fit update bbox st =
     (case camera st of
        None \<Rightarrow> st
      | Some cam \<Rightarrow>
          let center = getCenter bbox;
              size = getSize bbox;
              maxDim = max (vec_x size) (max (vec_y size) (vec_z size));
              fov_rad = fov cam * (pi / 180);
              cameraZ = \<bar>maxDim / 2 / tan (fov_rad / 2)\<bar>;
              cameraZ' = cameraZ * (if aspect cam > 1 then aspect cam else 1);
              st1 = st\<lparr>camera := Some (cam\<lparr>
                       cam_position := Vector3 (vec_x center) (vec_y center + cameraZ' * 0.5)
                                         (vec_z center + cameraZ'),
                       cam_lookAt := Some center\<rparr>)\<rparr>
          in case controls st1 of
               None \<Rightarrow> st1
             | Some ctl \<Rightarrow>
                 call_update update (st1\<lparr>controls := Some (ctl\<lparr>target := center\<rparr>)\<rparr>))"

definition renderModel :: "orbit_update \<Rightarrow> importResult option \<Rightarrow> state \<Rightarrow> state" where
  "renderModel update importResult st =
     (let st1 = (if scene st = None \<or> camera st = None \<or> renderer st = None
                 then initThreeDScene update st else st)
      in if scene st1 = None then st1
         else
           let st2 = clearModel st1 in
           case Option.bind importResult meshes of
             None \<Rightarrow> resetCameraView update st2
           | Some ms \<Rightarrow>
               if length ms = 0 then resetCameraView update st2
               else
                 (case fold renderModel_forEach ms (None, True, st2) of
                    (bbox, firstMesh, st3) \<Rightarrow>
                      if \<not> isEmpty bbox then renderModel_fit update bbox st3
                      else resetCameraView update st3))"

subsection \<open>\<open>processFile\<close>\<close>

text \<open>A thrown value (or the reason a promise is rejected with): \<open>null\<close> or
  \<open>undefined\<close>, or any other value with its \<open>message\<close> property, which a value that
  is no \<open>Error\<close> object does not have. Reading \<open>e.message\<close> of \<open>null\<close> or \<open>undefined\<close>
  raises a \<open>TypeError\<close> (its text depends on the engine).\<close>

datatype thrown = ThrownNull | Thrown "string option"

definition TypeError :: "string \<Rightarrow> thrown" where
  "TypeError text = Thrown (Some text)"

fun message :: "thrown \<Rightarrow> thrown + string option" where
  "message ThrownNull = Inl (TypeError ''Cannot read properties of null'')"
| "message (Thrown m) = Inr m"

text \<open>How a run ends: normally, or with a throw that nothing has caught. For the
  asynchronous \<open>processFile\<close> these are the promise fulfilled and the promise
  rejected.\<close>

datatype completion = Normal state | Throws thrown state

fun state_of :: "completion \<Rightarrow> state" where
  "state_of (Normal st) = st"
| "state_of (Throws e st) = st"

record params =
  linearUnit :: string
  linearDeflectionType :: string
  linearDeflection :: real
  angularDeflection :: real

text \<open>The import library after its initialisation: what each entry point does
  with the bytes and the parameters, a result or a throw.\<close>

type_synonym occt = "entryPoint \<Rightarrow> 8 word list \<Rightarrow> params \<Rightarrow> thrown + importResult"

text \<open>\<open>toLowerCase\<close> on the letters A to Z; the other characters stay (no character
  outside ASCII has a lower-case form made of the letters of the five extensions).\<close>

definition toLowerCase_char :: "char \<Rightarrow> char" where
  "toLowerCase_char c =
     (let n = (of_char c :: nat) in if 65 \<le> n \<and> n \<le> 90 then char_of (n + 32) else c)"

definition toLowerCase :: "string \<Rightarrow> string" where
  "toLowerCase s = map toLowerCase_char s"

definition endsWith :: "string \<Rightarrow> string \<Rightarrow> bool" where
  "endsWith s searchString =
     (length searchString \<le> length s
      \<and> drop (length s - length searchString) s = searchString)"

text \<open>The \<open>if\<close> chain that chooses \<open>importFunction\<close>; \<open>None\<close> is its \<open>else\<close> branch.\<close>

definition importFunction_of :: "string \<Rightarrow> entryPoint option" where
  "importFunction_of fileName =
     (if endsWith fileName ''.step'' \<or> endsWith fileName ''.stp'' then Some ReadStepFile
      else if endsWith fileName ''.iges'' \<or> endsWith fileName ''.igs'' then Some ReadIgesFile
      else if endsWith fileName ''.brep'' then Some ReadBrepFile
      else None)"

text \<open>\<open>await nextTick()\<close>: the template shows the canvas under
  \<open>v-if="result && result.success"\<close>, so after the DOM update the ref \<open>threeCanvas\<close>
  holds the canvas exactly when the result is a success.\<close>

definition nextTick :: "canvas \<Rightarrow> state \<Rightarrow> state" where
  "nextTick cv st =
     st\<lparr>threeCanvas_value :=
          (case result_value st of
             None \<Rightarrow> None
           | Some r \<Rightarrow> if success r then Some cv else None)\<rparr>"

text \<open>\<open>importResult.error || 'Unknown error.'\<close>: the empty string is falsy too.
  (The Options-API text says \<open>'Unknown error occurred during import.'\<close>.)\<close>

definition error_or_unknown :: "importResult \<Rightarrow> string" where
  "error_or_unknown r =
     (case error r of
        None \<Rightarrow> ''Unknown error.''
      | Some e \<Rightarrow> if e = [] then ''Unknown error.'' else e)"

text \<open>The constant \<open>params\<close> of \<open>processFile\<close>.\<close>

definition import_params :: params where
  "import_params =
     \<lparr>linearUnit = ''millimeter'', linearDeflectionType = ''bounding_box_ratio'',
      linearDeflection = 0.1, angularDeflection = 0.5\<rparr>"

text \<open>The \<open>try\<close> block. \<open>occtimportjs\<close> is the outcome of awaiting the library's
  initialisation: a throw, or the initialised library. The initialisation is awaited
  before the file name is looked at.\<close>

definition processFile_try ::
  "orbit_update \<Rightarrow> (thrown + occt) \<Rightarrow> canvas \<Rightarrow> 8 word list \<Rightarrow> state \<Rightarrow> completion" where
  "processFile_try update occtimportjs cv content st =
     (let st1 = called [Occtimportjs] st in
      case occtimportjs of
        Inl e \<Rightarrow> Throws e st1
      | Inr occt \<Rightarrow>
          (case selectedFile_value st1 of
             None \<Rightarrow> Throws (TypeError ''Cannot read properties of null'') st1
           | Some file_name \<Rightarrow>
               (case importFunction_of (toLowerCase file_name) of
                  None \<Rightarrow>
                    Normal (st1\<lparr>error_value :=
                                  Some ''Unsupported file type. Please select .step, .iges, or .brep.'',
                                loading_value := False\<rparr>)
                | Some importFunction \<Rightarrow>
                    (case occt importFunction content import_params of
                       Inl e \<Rightarrow> Throws e (called [Import importFunction] st1)
                     | Inr importResult \<Rightarrow>
                         let st2 = (called [Import importFunction] st1)
                                     \<lparr>result_value := Some importResult\<rparr>
                         in if \<not> success importResult
                            then Normal (st2\<lparr>error_value :=
                                   Some (''Import failed: '' @ error_or_unknown importResult)\<rparr>)
                            else Normal (renderModel update (Some importResult)
                                           (nextTick cv st2))))))"

text \<open>The \<open>catch\<close> block: \<open>error.value = 'Error during OCCT import: ' + e.message\<close>,
  then \<open>console.error(e)\<close>. When reading \<open>e.message\<close> raises, nothing is assigned and
  nothing is logged, and the \<open>TypeError\<close> leaves the block. (The Options-API text
  starts the message with \<open>'Error during OCCT import initialization or processing: '\<close>.)\<close>

fun processFile_catch :: "completion \<Rightarrow> completion" where
  "processFile_catch (Normal st) = Normal st"
| "processFile_catch (Throws e st) =
     (case message e of
        Inl type_error \<Rightarrow> Throws type_error st
      | Inr m \<Rightarrow>
          Normal (st\<lparr>error_value := Some (''Error during OCCT import: '' @ js_string m),
                    console := console st @ [ConsoleError (js_string m)]\<rparr>))"

text \<open>The \<open>finally\<close> block.\<close>

fun processFile_finally :: "completion \<Rightarrow> completion" where
  "processFile_finally (Normal st) = Normal (st\<lparr>loading_value := False\<rparr>)"
| "processFile_finally (Throws e st) = Throws e (st\<lparr>loading_value := False\<rparr>)"

definition processFile ::
  "orbit_update \<Rightarrow> (thrown + occt) \<Rightarrow> canvas \<Rightarrow> state \<Rightarrow> completion" where
  "processFile update occtimportjs cv st =
     (case fileContent_value st of
        None \<Rightarrow>
          Normal (st\<lparr>error_value := Some ''No file selected or file content not loaded.''\<rparr>)
      | Some content \<Rightarrow>
          let st1 = clearModel (st\<lparr>loading_value := True, result_value := None,
                                   error_value := None\<rparr>)
          in processFile_finally
               (processFile_catch (processFile_try update occtimportjs cv content st1)))"

subsection \<open>\<open>onBeforeUnmount\<close>\<close>

text \<open>\<open>scene.traverse\<close> visits the scene, its two lights, the model group and the
  meshes of the model group, in this order; only the meshes are \<open>isMesh\<close>. For each
  of them the geometry is disposed, then the material.\<close>

definition traverse_dispose :: "mesh list \<Rightarrow> call list" where
  "traverse_dispose ms =
     concat (map (\<lambda>obj. [GeometryDispose (mesh_id obj), MaterialDispose (mesh_id obj)]) ms)"

text \<open>A frame handle is truthy when it is not 0. (The Options-API text also sets
  \<open>animationFrameId\<close> and \<open>controls\<close> to \<open>null\<close>; the calls are the same.) The last
  statement, \<open>window.removeEventListener\<close>, is not part of the state.\<close>

definition onBeforeUnmount :: "state \<Rightarrow> state" where
  "onBeforeUnmount st =
     (let st1 = (case animationFrameId_value st of
                   None \<Rightarrow> st
                 | Some h \<Rightarrow> if h \<noteq> 0 then called [CancelAnimationFrame h] st else st);
          st2 = (case renderer st1 of
                   None \<Rightarrow> st1
                 | Some r \<Rightarrow> (called [RendererDispose] st1)\<lparr>renderer := None\<rparr>);
          st3 = (case controls st2 of
                   None \<Rightarrow> st2
                 | Some ctl \<Rightarrow> called [ControlsDispose] st2);
          st4 = (case scene st3 of
                   None \<Rightarrow> st3
                 | Some sc \<Rightarrow>
                     called (traverse_dispose (case modelGroup st3 of None \<Rightarrow> [] | Some ms \<Rightarrow> ms)) st3)
      in st4\<lparr>scene := None, camera := None, modelGroup := None\<rparr>)"

subsection \<open>The library's \<open>OrbitControls.update\<close>\<close>

text \<open>Modelled from the rendering library (three.js is not under src/): what
  \<open>OrbitControls.update\<close> does for a controller with no user input pending, the
  camera's up vector \<open>(0, 1, 0)\<close> and the library's default angle limits. The offset of
  the camera from the target is taken in spherical coordinates, the polar angle is
  kept \<open>EPS\<close> away from both poles, the radius is clamped between \<open>minDistance\<close> and
  \<open>maxDistance\<close>, the camera is put at the target plus that offset and aimed at the
  target. \<open>h\<close> is the horizontal length of the offset, so that the sine of the polar
  angle is \<open>h / radius\<close>.\<close>

definition EPS :: real where
  "EPS = 0.000001"

definition clampDistance :: "orbitControls \<Rightarrow> real \<Rightarrow> real" where
  "clampDistance ctl radius = max (minDistance ctl) (min (maxDistance ctl) radius)"

definition OrbitControls_update :: orbit_update where
  "OrbitControls_update ctl cam =
     (let offset = vec_sub (cam_position cam) (target ctl);
          radius = vec_length offset;
          h = sqrt (vec_x offset * vec_x offset + vec_z offset * vec_z offset);
          radius' = clampDistance ctl radius;
          offset' =
            (if radius = 0 then Vector3 0 (radius' * cos EPS) (radius' * sin EPS)
             else if radius * sin EPS \<le> h then vec_scale (radius' / radius) offset
             else if h = 0
               then Vector3 0 (sgn (vec_y offset) * radius' * cos EPS) (radius' * sin EPS)
             else Vector3 (radius' * sin EPS * (vec_x offset / h))
                    (sgn (vec_y offset) * radius' * cos EPS)
                    (radius' * sin EPS * (vec_z offset / h)))
      in (ctl, cam\<lparr>cam_position := vec_add (target ctl) offset',
                     cam_lookAt := Some (target ctl)\<rparr>))"

section \<open>Notions used in the statements\<close>

text \<open>A mesh record is valid when both required arrays are there.\<close>

definition valid_record :: "meshData \<Rightarrow> bool" where
  "valid_record meshData = (position_array meshData \<noteq> None \<and> index_array meshData \<noteq> None)"

text \<open>The three.js objects exist together: \<open>initThreeDScene\<close> makes all of them and
  \<open>onBeforeUnmount\<close> drops them in one go. \<open>well_formed\<close> holds in every state the
  component reaches (see \<open>well_formed_initThreeDScene\<close> to
  \<open>well_formed_onBeforeUnmount\<close>).\<close>

definition well_formed :: "state \<Rightarrow> bool" where
  "well_formed st =
     ((scene st \<noteq> None \<and> camera st \<noteq> None \<and> renderer st \<noteq> None \<and> controls st \<noteq> None
        \<and> modelGroup st \<noteq> None)
      \<or> (scene st = None \<and> camera st = None \<and> renderer st = None \<and> modelGroup st = None))"

text \<open>The bounding box of a list of meshes: the union of their boxes.\<close>

definition union_of_meshes :: "mesh list \<Rightarrow> box3" where
  "union_of_meshes ms = foldl union_box None (map setFromObject ms)"

text \<open>The identities a list of calls disposes, in order.\<close>

fun geometry_disposals :: "call list \<Rightarrow> nat list" where
  "geometry_disposals [] = []"
| "geometry_disposals (GeometryDispose i # cs) = i # geometry_disposals cs"
| "geometry_disposals (c # cs) = geometry_disposals cs"

fun material_disposals :: "call list \<Rightarrow> nat list" where
  "material_disposals [] = []"
| "material_disposals (MaterialDispose i # cs) = i # material_disposals cs"
| "material_disposals (c # cs) = material_disposals cs"

text \<open>The entry points of the import library a list of calls invokes, in order.\<close>

fun imports_of :: "call list \<Rightarrow> entryPoint list" where
  "imports_of [] = []"
| "imports_of (Import f # cs) = f # imports_of cs"
| "imports_of (c # cs) = imports_of cs"

text \<open>\<open>precedes a b cs\<close>: call \<open>a\<close> is made, and call \<open>b\<close> is made later.\<close>

definition precedes :: "call \<Rightarrow> call \<Rightarrow> call list \<Rightarrow> bool" where
  "precedes a b cs = (b \<in> set (dropWhile (\<lambda>c. c \<noteq> a) cs))"

text \<open>The calls a run has added to the calls made before it.\<close>

definition new_calls :: "state \<Rightarrow> state \<Rightarrow> call list" where
  "new_calls st st' = drop (length (calls st)) (calls st')"

text \<open>All three.js objects are there.\<close>

definition initialized :: "state \<Rightarrow> bool" where
  "initialized st =
     (scene st \<noteq> None \<and> camera st \<noteq> None \<and> renderer st \<noteq> None \<and> controls st \<noteq> None
      \<and> modelGroup st \<noteq> None)"

text \<open>The state after the first statement of \<open>renderModel\<close>.\<close>

definition prepared :: "orbit_update \<Rightarrow> state \<Rightarrow> state" where
  "prepared update st =
     (if scene st = None \<or> camera st = None \<or> renderer st = None
      then initThreeDScene update st else st)"

text \<open>The records \<open>renderModel\<close> iterates over; none when the result or its
  \<open>meshes\<close> is missing.\<close>

definition records_of :: "importResult option \<Rightarrow> meshData list" where
  "records_of importResult =
     (case Option.bind importResult meshes of None \<Rightarrow> [] | Some ms \<Rightarrow> ms)"

text \<open>The mesh a valid record is turned into, the meshes of a list of records
  (numbered from \<open>i\<close>), the warning for a record that is left out, and the calls of
  \<open>clearModel\<close> on a list of meshes.\<close>

definition mesh_of_record :: "nat \<Rightarrow> meshData \<Rightarrow> mesh" where
  "mesh_of_record i meshData =
     \<lparr>mesh_id = i,
      geometry = geometry_of meshData (the (position_array meshData)) (the (index_array meshData)),
      material = material_of meshData\<rparr>"

fun materialized :: "nat \<Rightarrow> meshData list \<Rightarrow> mesh list" where
  "materialized i [] = []"
| "materialized i (meshData # rest) =
     (if valid_record meshData then mesh_of_record i meshData # materialized (Suc i) rest
      else materialized i rest)"

definition skip_warning :: "meshData \<Rightarrow> consoleEntry" where
  "skip_warning meshData = ConsoleWarn (''Skipping invalid mesh: '' @ js_string (name meshData))"

definition clear_calls :: "mesh list \<Rightarrow> call list" where
  "clear_calls ms =
     concat (map (\<lambda>object. [GroupRemove (mesh_id object), GeometryDispose (mesh_id object),
                              MaterialDispose (mesh_id object)]) ms)"

text \<open>The state when the loop of \<open>renderModel\<close> is through: the old meshes cleared,
  the new ones added, the warnings logged.\<close>

definition materialize_all :: "meshData list \<Rightarrow> state \<Rightarrow> state" where
  "materialize_all mds st =
     st\<lparr>modelGroup := Some (materialized (nextId st) mds),
        nextId := nextId st + length (materialized (nextId st) mds),
        calls := calls st @ clear_calls (the (modelGroup st))
                   @ map (\<lambda>m. GroupAdd (mesh_id m)) (materialized (nextId st) mds),
        console := console st @ map skip_warning (filter (\<lambda>m. \<not> valid_record m) mds)\<rparr>"

text \<open>The state in which \<open>processFile\<close> enters its \<open>try\<close> block.\<close>

definition started :: "state \<Rightarrow> state" where
  "started st =
     clearModel (st\<lparr>loading_value := True, result_value := None, error_value := None\<rparr>)"

text \<open>The value a run has thrown and nothing has caught, if any.\<close>

fun uncaught :: "completion \<Rightarrow> thrown option" where
  "uncaught (Normal st) = None"
| "uncaught (Throws e st) = Some e"

text \<open>How a failed run of \<open>processFile\<close> ends: the one error message the template
  shows is \<open>msg\<close>, the loading flag is off, and the model group (if the scene exists)
  has no children.\<close>

definition failed_with :: "string \<Rightarrow> state \<Rightarrow> state \<Rightarrow> bool" where
  "failed_with msg st st' =
     (error_value st' = Some msg \<and> \<not> loading_value st'
      \<and> modelGroup st' = map_option (\<lambda>children. []) (modelGroup st))"

text \<open>The camera distance and the camera position of the fitting rule, in the words
  of the specification: with the box's centre \<open>C\<close> and largest extent \<open>maxDim\<close>, the
  distance is \<open>d = |maxDim / 2 / tan (fov / 2)|\<close> (\<open>fov\<close> in radians), times the aspect
  ratio when that exceeds 1, and the position is \<open>C + (0, 0.5 d, d)\<close>.\<close>

definition fitted_distance :: "box3 \<Rightarrow> perspectiveCamera \<Rightarrow> real" where
  "fitted_distance bbox cam =
     (let maxDim = Max {vec_x (getSize bbox), vec_y (getSize bbox), vec_z (getSize bbox)};
          d0 = \<bar>maxDim / 2 / tan (fov cam * (pi / 180) / 2)\<bar>
      in if aspect cam > 1 then d0 * aspect cam else d0)"

definition fitted_position :: "box3 \<Rightarrow> perspectiveCamera \<Rightarrow> vec3" where
  "fitted_position bbox cam =
     vec_add (getCenter bbox)
       (Vector3 0 (0.5 * fitted_distance bbox cam) (fitted_distance bbox cam))"




subsection \<open>Example inputs\<close>

definition canvas_example :: canvas where
  "canvas_example = \<lparr>clientWidth = 800, clientHeight = 500\<rparr>"

text \<open>The component before its scene exists, and with the scene set up on the
  example canvas and the first frame drawn.\<close>

definition state_initial :: state where
  "state_initial =
     \<lparr>selectedFile_value = None, fileContent_value = None, loading_value = False,
      result_value = None, error_value = None, animationFrameId_value = None,
      threeCanvas_value = None, scene = None, camera = None, renderer = None,
      controls = None, modelGroup = None, calls = [], console = [], nextId = 0,
      frameCounter = 0\<rparr>"

definition state_viewer :: state where
  "state_viewer =
     \<lparr>selectedFile_value = None, fileContent_value = None, loading_value = False,
      result_value = None, error_value = None, animationFrameId_value = Some 1,
      threeCanvas_value = Some canvas_example,
      scene = Some \<lparr>background = 0xf0f0f0\<rparr>,
      camera = Some \<lparr>cam_position = Vector3 5 5 5, cam_lookAt = Some (Vector3 0 0 0),
                      fov = 75, aspect = 800 / 500\<rparr>,
      renderer = Some \<lparr>domElement = Some canvas_example\<rparr>,
      controls = Some \<lparr>target = Vector3 0 0 0, enableDamping = True, dampingFactor = 0.25,
                        screenSpacePanning = False, minDistance = 1, maxDistance = 500\<rparr>,
      modelGroup = Some [], calls = [RequestAnimationFrame 1, ControlsUpdate, Render],
      console = [], nextId = 0, frameCounter = 1\<rparr>"

definition record_of ::
  "string \<Rightarrow> real list option \<Rightarrow> nat list option \<Rightarrow> nat list option \<Rightarrow> meshData" where
  "record_of nm ps idx col =
     \<lparr>name = Some nm,
      attributes = Some \<lparr>position = Some \<lparr>array = ps\<rparr>, normal = None\<rparr>,
      index = Some \<lparr>array = idx\<rparr>,
      color = col\<rparr>"

definition record_triangle :: meshData where
  "record_triangle =
     record_of ''triangle'' (Some [0, 0, 0, 1, 0, 0, 0, 1, 0]) (Some [0, 1, 2]) (Some [255, 0, 128])"

definition record_no_index :: meshData where
  "record_no_index = record_of ''no index'' (Some [0, 0, 0, 1, 0, 0, 0, 1, 0]) None None"

definition record_no_position :: meshData where
  "record_no_position = record_of ''no position'' None (Some [0, 1, 2]) None"

definition record_no_vertices :: meshData where
  "record_no_vertices = record_of ''no vertices'' (Some []) (Some []) None"



definition record_wrapping :: meshData where
  "record_wrapping =
     record_of ''wrapping'' (Some [0, 0, 0, 1, 0, 0, 0, 1, 0]) (Some [0, 1, 70000]) (Some [1, 2])"

definition result_of :: "meshData list \<Rightarrow> importResult" where
  "result_of mds = \<lparr>success = True, error = None, meshes = Some mds\<rparr>"

definition result_mixed :: importResult where
  "result_mixed = result_of [record_no_position, record_triangle, record_no_index, record_triangle]"

text \<open>A selected file whose bytes are loaded, and four import libraries: one that
  returns a triangle, one that reports a failure, one that throws an error, one that
  throws \<open>undefined\<close>.\<close>

definition state_with_file :: "string \<Rightarrow> state" where
  "state_with_file file_name =
     state_initial\<lparr>selectedFile_value := Some file_name, fileContent_value := Some [83, 84, 69, 80]\<rparr>"

definition occt_triangle :: occt where
  "occt_triangle f content p = Inr (result_of [record_triangle])"

definition occt_failing :: occt where
  "occt_failing f content p = Inr \<lparr>success = False, error = Some ''unreadable file'', meshes = None\<rparr>"

definition occt_throwing :: occt where
  "occt_throwing f content p = Inl (Thrown (Some ''memory access out of bounds''))"

definition occt_throwing_undefined :: occt where
  "occt_throwing_undefined f content p = Inl ThrownNull"



text \<open>The viewer with the two meshes of the mixed result in its model group.\<close>

definition state_shown :: state where
  "state_shown =
     state_viewer\<lparr>modelGroup := Some [mesh_of_record 0 record_triangle,
                                        mesh_of_record 1 record_triangle],
                  nextId := 2\<rparr>"

text \<open>The same viewer with a file selected and loaded.\<close>

definition state_shown_with_file :: state where
  "state_shown_with_file =
     state_shown\<lparr>selectedFile_value := Some ''part.step'',
                  fileContent_value := Some [83, 84, 69, 80]\<rparr>"

section \<open>Facts about the operations\<close>

subsection \<open>\<open>clearModel\<close>\<close>

lemma clearModel_loop_eq: "clearModel_loop ms cs = ([], cs @ clear_calls ms)"
  by (induction ms arbitrary: cs) (simp_all add: clear_calls_def)

lemma clearModel_Some:
  "modelGroup st = Some ms \<Longrightarrow>
   clearModel st = st\<lparr>modelGroup := Some [], calls := calls st @ clear_calls ms\<rparr>"
  by (simp add: clearModel_def clearModel_loop_eq)

lemma clearModel_None: "modelGroup st = None \<Longrightarrow> clearModel st = st"
  by (simp add: clearModel_def)

subsection \<open>The loop of \<open>renderModel\<close>\<close>

lemma forEach_valid:
  "valid_record meshData \<Longrightarrow>
   renderModel_forEach meshData (b, f, st) =
     ((if f then setFromObject (mesh_of_record (nextId st) meshData)
       else union_box b (setFromObject (mesh_of_record (nextId st) meshData))),
      False,
      st\<lparr>modelGroup :=
           map_option (\<lambda>children. children @ [mesh_of_record (nextId st) meshData]) (modelGroup st),
         nextId := Suc (nextId st),
         calls := calls st @ [GroupAdd (nextId st)]\<rparr>)"
  by (auto simp add: renderModel_forEach_def valid_record_def mesh_of_record_def called_def Let_def)

lemma forEach_invalid:
  "\<not> valid_record meshData \<Longrightarrow>
   renderModel_forEach meshData (b, f, st) =
     (b, f, st\<lparr>console := console st @ [skip_warning meshData]\<rparr>)"
  by (auto simp add: renderModel_forEach_def valid_record_def skip_warning_def)

text \<open>The whole loop, from any point of it: \<open>firstMesh\<close> is still set only while the
  box is empty.\<close>

lemma fold_forEach:
  "f \<longrightarrow> b = None \<Longrightarrow>
   fold renderModel_forEach mds (b, f, st) =
     (foldl union_box b (map setFromObject (materialized (nextId st) mds)),
      f \<and> materialized (nextId st) mds = [],
      st\<lparr>modelGroup :=
           map_option (\<lambda>children. children @ materialized (nextId st) mds) (modelGroup st),
         nextId := nextId st + length (materialized (nextId st) mds),
         calls := calls st @ map (\<lambda>m. GroupAdd (mesh_id m)) (materialized (nextId st) mds),
         console := console st @ map skip_warning (filter (\<lambda>m. \<not> valid_record m) mds)\<rparr>)"
proof (induction mds arbitrary: b f st)
  case Nil
  then show ?case by (simp add: option.map_ident)
next
  case (Cons md mds)
  show ?case
  proof (cases "valid_record md")
    case True
    then show ?thesis
      using Cons.prems
      by (simp add: forEach_valid Cons.IH option.map_comp comp_def mesh_of_record_def)
  next
    case False
    then show ?thesis
      using Cons.prems
      by (simp add: forEach_invalid Cons.IH)
  qed
qed

lemma materialized_length: "length (materialized i mds) = length (filter valid_record mds)"
  by (induction mds arbitrary: i) simp_all

lemma materialized_ids:
  "map mesh_id (materialized i mds) = [i ..< i + length (filter valid_record mds)]"
proof (induction mds arbitrary: i)
  case Nil
  show ?case by simp
next
  case (Cons md mds)
  have "[i ..< Suc (i + k)] = i # [Suc i ..< Suc i + k]" for k
    by (simp add: upt_conv_Cons)
  with Cons show ?case
    by (simp add: mesh_of_record_def)
qed

lemma materialized_material:
  "map material (materialized i mds) = map material_of (filter valid_record mds)"
  by (induction mds arbitrary: i) (simp_all add: mesh_of_record_def)

lemma materialized_geometry:
  "map geometry (materialized i mds) =
   map (\<lambda>md. geometry_of md (the (position_array md)) (the (index_array md)))
     (filter valid_record mds)"
  by (induction mds arbitrary: i) (simp_all add: mesh_of_record_def)

subsection \<open>The call of the controller's \<open>update\<close>\<close>

lemma call_update_fields:
  "modelGroup (call_update update st) = modelGroup st"
  "console (call_update update st) = console st"
  "nextId (call_update update st) = nextId st"
  "scene (call_update update st) = scene st"
  "renderer (call_update update st) = renderer st"
  "animationFrameId_value (call_update update st) = animationFrameId_value st"
  "frameCounter (call_update update st) = frameCounter st"
  by (simp_all add: call_update_def called_def split: option.splits prod.splits)

lemma call_update_present:
  "camera (call_update update st) = None \<longleftrightarrow> camera st = None"
  "controls (call_update update st) = None \<longleftrightarrow> controls st = None"
  by (simp_all add: call_update_def called_def split: option.splits prod.splits)

lemma call_update_calls:
  "calls (call_update update st) =
     (if controls st = None then calls st else calls st @ [ControlsUpdate])"
  by (simp add: call_update_def called_def split: option.splits prod.splits)


subsection \<open>\<open>initThreeDScene\<close> and the first statement of \<open>renderModel\<close>\<close>

lemma initialized_call_update: "initialized (call_update update st) = initialized st"
  by (simp only: initialized_def call_update_fields call_update_present)

lemma initialized_called: "initialized (called cs st) = initialized st"
  by (simp add: initialized_def called_def)

lemma initialized_animate: "initialized st \<Longrightarrow> initialized (animate update st)"
proof -
  assume "initialized st"
  then have "initialized (st\<lparr>animationFrameId_value := Some (Suc (frameCounter st)),
      frameCounter := Suc (frameCounter st)\<rparr>)"
    by (simp add: initialized_def)
  then show ?thesis
    by (simp add: animate_def Let_def initialized_called initialized_call_update)
qed

lemma initialized_initThreeDScene:
  "threeCanvas_value st \<noteq> None \<Longrightarrow> initialized (initThreeDScene update st)"
proof -
  assume "threeCanvas_value st \<noteq> None"
  then obtain cv where cv: "threeCanvas_value st = Some cv"
    by auto
  show ?thesis
    unfolding initThreeDScene_def cv option.case
    by (rule initialized_animate) (simp add: initialized_def)
qed

lemma initThreeDScene_fields:
  "console (initThreeDScene update st) = console st"
  "nextId (initThreeDScene update st) = nextId st"
  by (auto simp add: initThreeDScene_def animate_def called_def Let_def call_update_fields
        split: option.splits)

lemma prepared_initialized:
  "well_formed st \<Longrightarrow> scene st \<noteq> None \<or> threeCanvas_value st \<noteq> None \<Longrightarrow> initialized (prepared update st)"
  by (auto simp add: prepared_def well_formed_def initialized_initThreeDScene) (auto simp add: initialized_def)

lemma prepared_fields:
  "console (prepared update st) = console st"
  "nextId (prepared update st) = nextId st"
  by (simp_all add: prepared_def initThreeDScene_fields)

subsection \<open>\<open>renderModel\<close> as a whole\<close>

lemma renderModel_initialized:
  assumes "initialized st"
  shows "renderModel update r st =
    (if \<not> isEmpty (union_of_meshes (materialized (nextId st) (records_of r)))
     then renderModel_fit update (union_of_meshes (materialized (nextId st) (records_of r)))
            (materialize_all (records_of r) st)
     else resetCameraView update (materialize_all (records_of r) st))"
proof -
  from assms obtain old where old: "modelGroup st = Some old"
    by (auto simp add: initialized_def)
  from assms obtain s c rd where
    sc: "scene st = Some s" "camera st = Some c" "renderer st = Some rd"
    by (auto simp add: initialized_def)
  show ?thesis
  proof (cases "Option.bind r meshes")
    case None
    then show ?thesis
      using sc old
      by (simp add: renderModel_def clearModel_Some materialize_all_def union_of_meshes_def
            isEmpty_def records_of_def)
  next
    case (Some mds)
    show ?thesis
    proof (cases "mds = []")
      case True
      then show ?thesis
        using sc old Some
        by (simp add: renderModel_def clearModel_Some materialize_all_def union_of_meshes_def
              isEmpty_def records_of_def)
    next
      case False
      then show ?thesis
        using sc old Some
        by (simp add: renderModel_def clearModel_Some fold_forEach materialize_all_def
              union_of_meshes_def records_of_def Let_def)
    qed
  qed
qed

lemma renderModel_prepared:
  assumes "well_formed st" and "scene st \<noteq> None \<or> threeCanvas_value st \<noteq> None"
  shows "renderModel update r st = renderModel update r (prepared update st)"
proof -
  have "initialized (prepared update st)" using assms by (rule prepared_initialized)
  then obtain s c rd where "scene (prepared update st) = Some s" "camera (prepared update st) = Some c"
      "renderer (prepared update st) = Some rd"
    by (auto simp add: initialized_def)
  then show ?thesis
    by (simp add: renderModel_def prepared_def Let_def)
qed

lemma renderModel_fit_fields:
  "modelGroup (renderModel_fit update b st) = modelGroup st"
  "console (renderModel_fit update b st) = console st"
  "nextId (renderModel_fit update b st) = nextId st"
  by (auto simp add: renderModel_fit_def Let_def call_update_fields split: option.splits)

lemma resetCameraView_fields:
  "modelGroup (resetCameraView update st) = modelGroup st"
  "console (resetCameraView update st) = console st"
  "nextId (resetCameraView update st) = nextId st"
  by (auto simp add: resetCameraView_def Let_def call_update_fields split: option.splits)

text \<open>What \<open>renderModel\<close> leaves in the model group and on the console.\<close>

lemma renderModel_group:
  assumes "well_formed st" and "scene st \<noteq> None \<or> threeCanvas_value st \<noteq> None"
  shows "modelGroup (renderModel update r st) = Some (materialized (nextId st) (records_of r))"
    and "console (renderModel update r st) =
           console st @ map skip_warning (filter (\<lambda>m. \<not> valid_record m) (records_of r))"
proof -
  have i: "initialized (prepared update st)" using assms by (rule prepared_initialized)
  have e: "renderModel update r st = renderModel update r (prepared update st)" using assms by (rule renderModel_prepared)
  show "modelGroup (renderModel update r st) = Some (materialized (nextId st) (records_of r))"
    by (simp add: e renderModel_initialized [OF i] renderModel_fit_fields resetCameraView_fields
          materialize_all_def prepared_fields)
  show "console (renderModel update r st) =
           console st @ map skip_warning (filter (\<lambda>m. \<not> valid_record m) (records_of r))"
    by (simp add: e renderModel_initialized [OF i] renderModel_fit_fields resetCameraView_fields
          materialize_all_def prepared_fields)
qed

subsection \<open>The example inputs\<close>

lemma state_viewer_fields:
  "scene state_viewer = Some \<lparr>background = 0xf0f0f0\<rparr>"
  "camera state_viewer =
     Some \<lparr>cam_position = Vector3 5 5 5, cam_lookAt = Some (Vector3 0 0 0), fov = 75,
           aspect = 800 / 500\<rparr>"
  "renderer state_viewer = Some \<lparr>domElement = Some canvas_example\<rparr>"
  "controls state_viewer =
     Some \<lparr>target = Vector3 0 0 0, enableDamping = True, dampingFactor = 0.25,
           screenSpacePanning = False, minDistance = 1, maxDistance = 500\<rparr>"
  "modelGroup state_viewer = Some []"
  "calls state_viewer = [RequestAnimationFrame 1, ControlsUpdate, Render]"
  "console state_viewer = []"
  "nextId state_viewer = 0"
  "animationFrameId_value state_viewer = Some 1"
  by (simp_all add: state_viewer_def)

lemma well_formed_state_viewer: "well_formed state_viewer"
  by (simp add: well_formed_def state_viewer_fields)


lemma example_records:
  "position_array record_triangle = Some [0, 0, 0, 1, 0, 0, 0, 1, 0]"
  "index_array record_triangle = Some [0, 1, 2]"
  "color record_triangle = Some [255, 0, 128]"
  "position_array record_wrapping = Some [0, 0, 0, 1, 0, 0, 0, 1, 0]"
  "index_array record_wrapping = Some [0, 1, 70000]"
  "color record_wrapping = Some [1, 2]"
  "position_array record_no_vertices = Some []"
  "index_array record_no_vertices = Some []"
  "color record_no_vertices = None"
  "name record_no_position = Some ''no position''"
  "name record_no_index = Some ''no index''"
  by (simp_all add: record_triangle_def record_wrapping_def record_no_vertices_def
        record_no_position_def record_no_index_def record_of_def position_array_def
        index_array_def)

lemma example_valid:
  "valid_record record_triangle"
  "valid_record record_wrapping"
  "valid_record record_no_vertices"
  "\<not> valid_record record_no_position"
  "\<not> valid_record record_no_index"
  by (simp_all add: valid_record_def record_triangle_def record_wrapping_def
        record_no_vertices_def record_no_position_def record_no_index_def record_of_def
        position_array_def index_array_def)

section \<open>Mesh materialization\<close>

text \<open>
  C1. Handed an import result with \<open>success = true\<close>, \<open>renderModel\<close> leaves in the model
  group exactly one mesh for every record that has both \<open>attributes.position.array\<close>
  and \<open>index.array\<close>, in the order of the records, each built from its record; every
  other record is left out with one \<open>console.warn\<close> line (no error, no throw), and the
  records after it are still processed. The scene must exist or be creatable (the
  canvas is there), as it is when \<open>processFile\<close> calls \<open>renderModel\<close>.
\<close>

theorem renderModel_skips_invalid_records:
  assumes "well_formed st" and "scene st \<noteq> None \<or> threeCanvas_value st \<noteq> None"
    and "success r" and "meshes r = Some mds"
  shows "\<exists>ms. modelGroup (renderModel update (Some r) st) = Some ms
           \<and> length ms = length (filter valid_record mds)
           \<and> map geometry ms =
               map (\<lambda>md. geometry_of md (the (position_array md)) (the (index_array md)))
                 (filter valid_record mds)
           \<and> map material ms = map material_of (filter valid_record mds)
           \<and> distinct (map mesh_id ms)
           \<and> console (renderModel update (Some r) st) =
               console st @
               map (\<lambda>md. ConsoleWarn (''Skipping invalid mesh: '' @ js_string (name md)))
                 (filter (\<lambda>md. \<not> valid_record md) mds)"
proof -
  have rec: "records_of (Some r) = mds"
    using assms(4) by (simp add: records_of_def)
  have sk: "skip_warning = (\<lambda>md. ConsoleWarn (''Skipping invalid mesh: '' @ js_string (name md)))"
    by (rule ext) (simp add: skip_warning_def)
  have g: "modelGroup (renderModel update (Some r) st) = Some (materialized (nextId st) mds)"
    using renderModel_group(1) [OF assms(1,2), where r = "Some r"] by (simp add: rec)
  have c: "console (renderModel update (Some r) st) =
             console st @ map skip_warning (filter (\<lambda>m. \<not> valid_record m) mds)"
    using renderModel_group(2) [OF assms(1,2), where r = "Some r"] by (simp add: rec)
  have d: "distinct (map mesh_id (materialized (nextId st) mds))"
    by (simp add: materialized_ids)
  show ?thesis
    using g c d
    by (simp add: materialized_length materialized_geometry materialized_material sk)
qed

theorem renderModel_skips_invalid_records_witness:
  "well_formed state_viewer \<and> scene state_viewer \<noteq> None \<and> success result_mixed
   \<and> meshes result_mixed =
       Some [record_no_position, record_triangle, record_no_index, record_triangle]
   \<and> (\<forall>update. \<exists>ms.
           modelGroup (renderModel update (Some result_mixed) state_viewer) = Some ms
         \<and> length ms = 2
         \<and> map material ms = [material_of record_triangle, material_of record_triangle]
         \<and> console (renderModel update (Some result_mixed) state_viewer) =
             [ConsoleWarn ''Skipping invalid mesh: no position'',
              ConsoleWarn ''Skipping invalid mesh: no index''])"
proof -
  have h2: "scene state_viewer \<noteq> None \<or> threeCanvas_value state_viewer \<noteq> None"
    by (simp add: state_viewer_fields)
  have h3: "success result_mixed"
    by (simp add: result_mixed_def result_of_def)
  have h4: "meshes result_mixed =
      Some [record_no_position, record_triangle, record_no_index, record_triangle]"
    by (simp add: result_mixed_def result_of_def)
  have "\<exists>ms. modelGroup (renderModel update (Some result_mixed) state_viewer) = Some ms
         \<and> length ms = 2
         \<and> map material ms = [material_of record_triangle, material_of record_triangle]
         \<and> console (renderModel update (Some result_mixed) state_viewer) =
             [ConsoleWarn ''Skipping invalid mesh: no position'',
              ConsoleWarn ''Skipping invalid mesh: no index'']" for update
    using renderModel_skips_invalid_records [OF well_formed_state_viewer h2 h3 h4, where update = update]
    by (auto simp add: state_viewer_fields example_valid example_records js_string_def)
  then show ?thesis
    using h3 h4 by (simp add: well_formed_state_viewer state_viewer_fields)
qed

text \<open>
  C2. For a record with both arrays, the element type of the index buffer depends on
  the length of the position array alone: with \<open>V = length / 3\<close> it is \<open>Uint16Array\<close>
  exactly when \<open>V \<le> 65535\<close> and \<open>Uint32Array\<close> exactly when \<open>V > 65535\<close>. The source
  divides numbers; for a length that is a multiple of 3, as the data model requires,
  \<open>V\<close> is the vertex count \<open>length div 3\<close>.
\<close>

theorem index_width_by_vertex_count:
  assumes "position_array meshData = Some positions" and "index_array meshData = Some idx"
    and "modelGroup st = Some children"
  shows "\<exists>m. modelGroup (snd (snd (renderModel_forEach meshData (bbox, firstMesh, st)))) =
                Some (children @ [m])
           \<and> (is_Uint16Array (indexAttribute (geometry m)) \<longleftrightarrow>
                real (length positions) / 3 \<le> 65535)
           \<and> (is_Uint32Array (indexAttribute (geometry m)) \<longleftrightarrow>
                real (length positions) / 3 > 65535)
           \<and> (3 dvd length positions \<longrightarrow>
                (is_Uint16Array (indexAttribute (geometry m)) \<longleftrightarrow>
                   length positions div 3 \<le> 65535))"
proof -
  have v: "valid_record meshData"
    using assms by (simp add: valid_record_def)
  have "3 dvd length positions \<Longrightarrow>
          (real (length positions) / 3 \<le> 65535) = (length positions div 3 \<le> 65535)"
    by (auto simp add: dvd_def)
  then show ?thesis
    using assms
    by (auto simp add: forEach_valid [OF v] mesh_of_record_def geometry_of_def indices_of_def)
qed

theorem index_width_by_vertex_count_witness:
  "position_array record_triangle = Some [0, 0, 0, 1, 0, 0, 0, 1, 0]
   \<and> index_array record_triangle = Some [0, 1, 2]
   \<and> modelGroup state_viewer = Some []
   \<and> (\<exists>m. modelGroup (snd (snd (renderModel_forEach record_triangle (None, True, state_viewer)))) =
             Some [m]
         \<and> is_Uint16Array (indexAttribute (geometry m))
         \<and> \<not> is_Uint32Array (indexAttribute (geometry m)))"
  using index_width_by_vertex_count [OF example_records(1) example_records(2)
          state_viewer_fields(5), of None True]
  by (auto simp add: example_records state_viewer_fields)

text \<open>
  C6. For a record with both arrays, the material's colour is built from the record's
  \<open>color\<close>: when it is there and has exactly 3 channels, each channel divided by 255
  (so \<open>[255, 0, 128]\<close> gives \<open>(1, 0, 128/255)\<close>), and the fixed \<open>0xcccccc\<close> when it is
  missing or has another number of channels. The material is double-sided.
\<close>

theorem material_color_selection:
  assumes "position_array meshData = Some positions" and "index_array meshData = Some idx"
    and "modelGroup st = Some children"
  shows "\<exists>m. modelGroup (snd (snd (renderModel_forEach meshData (bbox, firstMesh, st)))) =
                Some (children @ [m])
           \<and> (\<forall>r g b. color meshData = Some [r, g, b] \<longrightarrow>
                 materialColor (material m) = Color3 (real r / 255) (real g / 255) (real b / 255))
           \<and> (color meshData = Some [255, 0, 128] \<longrightarrow>
                 materialColor (material m) = Color3 1 0 (128 / 255))
           \<and> (color meshData = None \<or> (\<exists>cs. color meshData = Some cs \<and> length cs \<noteq> 3) \<longrightarrow>
                 materialColor (material m) = ColorHex 0xcccccc)
           \<and> doubleSide (material m)"
proof -
  have v: "valid_record meshData"
    using assms by (simp add: valid_record_def)
  show ?thesis
    using assms
    by (auto simp add: forEach_valid [OF v] mesh_of_record_def material_of_def
          split: option.splits)
qed

theorem material_color_selection_witness:
  "position_array record_triangle = Some [0, 0, 0, 1, 0, 0, 0, 1, 0]
   \<and> index_array record_triangle = Some [0, 1, 2]
   \<and> modelGroup state_viewer = Some []
   \<and> color record_triangle = Some [255, 0, 128]
   \<and> (\<exists>m. modelGroup (snd (snd (renderModel_forEach record_triangle (None, True, state_viewer)))) =
             Some [m]
         \<and> materialColor (material m) = Color3 1 0 (128 / 255))"
  using material_color_selection [OF example_records(1) example_records(2)
          state_viewer_fields(5), of None True]
  by (auto simp add: example_records state_viewer_fields)

text \<open>
  C10. The index values of a record are not compared with its vertex count. A record
  with both arrays is never left out on account of its index values: its mesh is added
  and nothing is logged. The index buffer holds every value \<open>v\<close> of the record's index
  array as \<open>v mod 2^16\<close> when the position array has at most 65535 vertices
  (\<open>length / 3 \<le> 65535\<close>), and as \<open>v mod 2^32\<close> otherwise.
\<close>

theorem index_values_wrap:
  assumes "position_array meshData = Some positions" and "index_array meshData = Some idx"
    and "modelGroup st = Some children"
  shows "\<exists>m. modelGroup (snd (snd (renderModel_forEach meshData (bbox, firstMesh, st)))) =
                Some (children @ [m])
           \<and> console (snd (snd (renderModel_forEach meshData (bbox, firstMesh, st)))) = console st
           \<and> (real (length positions) / 3 \<le> 65535 \<longrightarrow>
                (\<exists>ws. indexAttribute (geometry m) = Uint16Array ws
                    \<and> map unat ws = map (\<lambda>v. v mod 2 ^ 16) idx))
           \<and> (real (length positions) / 3 > 65535 \<longrightarrow>
                (\<exists>ws. indexAttribute (geometry m) = Uint32Array ws
                    \<and> map unat ws = map (\<lambda>v. v mod 2 ^ 32) idx))"
proof -
  have v: "valid_record meshData"
    using assms by (simp add: valid_record_def)
  show ?thesis
    using assms
    by (auto simp add: forEach_valid [OF v] mesh_of_record_def geometry_of_def indices_of_def
          unat_of_nat comp_def)
qed

theorem index_values_wrap_witness:
  "position_array record_wrapping = Some [0, 0, 0, 1, 0, 0, 0, 1, 0]
   \<and> index_array record_wrapping = Some [0, 1, 70000]
   \<and> modelGroup state_viewer = Some []
   \<and> (\<exists>m ws. modelGroup (snd (snd (renderModel_forEach record_wrapping (None, True, state_viewer)))) =
             Some [m]
         \<and> indexAttribute (geometry m) = Uint16Array ws
         \<and> map unat ws = [0, 1, 4464])"
  using index_values_wrap [OF example_records(4) example_records(5)
          state_viewer_fields(5), of None True]
  by (auto simp add: example_records state_viewer_fields)

section \<open>Scene fitting\<close>






lemma initialized_materialize_all: "initialized st \<Longrightarrow> initialized (materialize_all mds st)"
  by (simp add: initialized_def materialize_all_def)


lemma renderModel_fit_eq:
  assumes "camera st = Some cam" and "controls st = Some ctl"
  shows "renderModel_fit update b st =
    call_update update
      (st\<lparr>camera := Some (cam\<lparr>cam_position := fitted_position b cam,
                                cam_lookAt := Some (getCenter b)\<rparr>),
          controls := Some (ctl\<lparr>target := getCenter b\<rparr>)\<rparr>)"
  using assms
  by (cases "getCenter b")
    (simp add: renderModel_fit_def fitted_position_def fitted_distance_def Let_def
      max.commute max.left_commute algebra_simps)

lemma resetCameraView_eq:
  assumes "camera st = Some cam" and "controls st = Some ctl"
  shows "resetCameraView update st =
    call_update update
      (st\<lparr>camera := Some (cam\<lparr>cam_position := Vector3 5 5 5,
                                cam_lookAt := Some (Vector3 0 0 0)\<rparr>),
          controls := Some (ctl\<lparr>target := Vector3 0 0 0\<rparr>)\<rparr>)"
  using assms
  by (simp add: resetCameraView_def Let_def)



subsection \<open>The library's \<open>update\<close> on the poses of the component\<close>

lemma sin_EPS: "0 \<le> sin EPS" "sin EPS \<le> 1 / 2"
proof -
  have e: "0 \<le> EPS" "EPS \<le> 1 / 2" "EPS \<le> pi"
    using pi_ge_two by (simp_all add: EPS_def)
  show "0 \<le> sin EPS"
    using e(1) e(3) by (rule sin_ge_zero)
  have "sin EPS \<le> EPS"
    using e(1) by (rule sin_x_le_x)
  then show "sin EPS \<le> 1 / 2"
    using e(2) by simp
qed

lemma vec_ray: "vec_add t (vec_scale 1 (vec_sub p t)) = p"
  by (cases p; cases t) simp


text \<open>Away from the poles the camera stays on its ray from the target, at the clamped
  distance.\<close>

lemma OrbitControls_update_ray:
  assumes "vec_sub (cam_position cam) (target ctl) = off" and "vec_length off \<noteq> 0"
    and "vec_length off * sin EPS \<le> sqrt (vec_x off * vec_x off + vec_z off * vec_z off)"
  shows "cam_position (snd (OrbitControls_update ctl cam)) =
    vec_add (target ctl) (vec_scale (clampDistance ctl (vec_length off) / vec_length off) off)"
  using assms by (simp add: OrbitControls_update_def Let_def)











text \<open>The default pose is within the limits 1 and 500: the camera stays at
  \<open>(5, 5, 5)\<close>.\<close>

lemma update_default_pose:
  assumes "cam_position cam = Vector3 5 5 5" and "target ctl = Vector3 0 0 0"
    and "minDistance ctl = 1" and "maxDistance ctl = 500"
  shows "cam_position (snd (OrbitControls_update ctl cam)) = Vector3 5 5 5"
proof -
  have o: "vec_sub (cam_position cam) (target ctl) = Vector3 5 5 5"
    by (simp add: assms)
  have l: "vec_length (Vector3 5 5 5) = sqrt 75"
    by simp
  have r1: "1 \<le> sqrt 75"
    by (rule real_le_rsqrt) simp
  have "sqrt 75 \<le> sqrt (500 * 500)"
    by (rule real_sqrt_le_mono) simp
  then have r2: "sqrt 75 \<le> 500"
    by simp
  have n: "vec_length (Vector3 5 5 5) \<noteq> 0"
    using r1 by simp
  have "sqrt 75 * sin EPS \<le> sqrt 75 * (1 / 2)"
    using sin_EPS(2) r1 by (intro mult_left_mono) simp_all
  also have "\<dots> = sqrt (75 / 4)"
    by (simp add: real_sqrt_divide)
  also have "\<dots> \<le> sqrt 50"
    by (rule real_sqrt_le_mono) simp
  finally have s: "vec_length (Vector3 5 5 5) * sin EPS
      \<le> sqrt (vec_x (Vector3 5 5 5) * vec_x (Vector3 5 5 5)
              + vec_z (Vector3 5 5 5) * vec_z (Vector3 5 5 5))"
    by simp
  have c: "clampDistance ctl (sqrt 75) = sqrt 75"
    using r1 r2 by (simp add: clampDistance_def assms(3,4))
  have "sqrt 75 \<noteq> 0"
    using r1 by simp
  then show ?thesis
    using OrbitControls_update_ray [OF o n s]
    by (simp only: l c assms(2)) simp
qed

subsection \<open>The pose \<open>renderModel\<close> ends with\<close>










subsection \<open>The fitting distance on the example canvas\<close>





text \<open>The example viewer is the initial state after \<open>initThreeDScene\<close> on the example
  canvas: the first frame leaves the camera where it was put.\<close>

lemma OrbitControls_update_eq:
  "OrbitControls_update ctl cam =
     (ctl, cam\<lparr>cam_position := cam_position (snd (OrbitControls_update ctl cam)),
               cam_lookAt := Some (target ctl)\<rparr>)"
  by (simp add: OrbitControls_update_def Let_def)

lemma state_viewer_initThreeDScene:
  "initThreeDScene OrbitControls_update (state_initial\<lparr>threeCanvas_value := Some canvas_example\<rparr>)
     = state_viewer"
proof -
  define ctl where "ctl =
    \<lparr>target = Vector3 0 0 0, enableDamping = True, dampingFactor = 0.25,
      screenSpacePanning = False, minDistance = 1, maxDistance = 500\<rparr>"
  define cam where "cam =
    \<lparr>cam_position = Vector3 5 5 5, cam_lookAt = None, fov = 75,
      aspect = clientWidth canvas_example / clientHeight canvas_example\<rparr>"
  have "cam_position (snd (OrbitControls_update ctl cam)) = Vector3 5 5 5"
    by (rule update_default_pose) (simp_all add: ctl_def cam_def)
  then have u: "OrbitControls_update ctl cam =
      (ctl, cam\<lparr>cam_position := Vector3 5 5 5, cam_lookAt := Some (Vector3 0 0 0)\<rparr>)"
    using OrbitControls_update_eq [of ctl cam] by (simp add: ctl_def)
  show ?thesis
    using u
    by (simp add: initThreeDScene_def animate_def call_update_def called_def Let_def
          state_initial_def state_viewer_def ctl_def cam_def canvas_example_def)
qed




section \<open>Import dispatch and failures\<close>

lemma endsWith_suffix: "endsWith s t \<longleftrightarrow> suffix t s"
proof
  assume "endsWith s t"
  then have "s = take (length s - length t) s @ t"
    by (simp add: endsWith_def) (metis append_take_drop_id)
  then show "suffix t s" by (rule suffixI)
next
  assume "suffix t s"
  then obtain zs where "s = zs @ t" by (auto simp add: suffix_def)
  then show "endsWith s t" by (simp add: endsWith_def)
qed

text \<open>Two endings of one name: the shorter is an ending of the longer.\<close>

lemma endsWith_both:
  "endsWith s a \<Longrightarrow> endsWith s b \<Longrightarrow> length a \<le> length b \<Longrightarrow> endsWith b a"
proof -
  assume a: "endsWith s a" and b: "endsWith s b" and l: "length a \<le> length b"
  from a b have "suffix a s" and "suffix b s"
    by (simp_all add: endsWith_suffix)
  then have "suffix a b \<or> suffix b a"
    by (rule suffix_same_cases)
  then show "endsWith b a"
  proof
    assume "suffix a b"
    then show ?thesis by (simp add: endsWith_suffix)
  next
    assume h: "suffix b a"
    then have "length b \<le> length a" by (rule suffix_length_le)
    with l have "length a = length b" by simp
    with h have "a = b" by (auto simp add: suffix_def)
    then show ?thesis by (simp add: endsWith_suffix)
  qed
qed

text \<open>The five extensions exclude each other, so the order of the \<open>if\<close> chain does
  not matter.\<close>

lemma extensions_exclusive:
  "endsWith s ''.step'' \<or> endsWith s ''.stp'' \<Longrightarrow>
     \<not> endsWith s ''.iges'' \<and> \<not> endsWith s ''.igs'' \<and> \<not> endsWith s ''.brep''"
  "endsWith s ''.iges'' \<or> endsWith s ''.igs'' \<Longrightarrow> \<not> endsWith s ''.brep''"
proof -
  have n: "\<not> endsWith ''.step'' ''.iges''" "\<not> endsWith ''.step'' ''.igs''"
    "\<not> endsWith ''.step'' ''.brep''" "\<not> endsWith ''.iges'' ''.stp''"
    "\<not> endsWith ''.brep'' ''.stp''" "\<not> endsWith ''.iges'' ''.brep''"
    "\<not> endsWith ''.brep'' ''.igs''" "\<not> endsWith ''.brep'' ''.iges''"
    "\<not> endsWith ''.stp'' ''.igs''" "\<not> endsWith ''.igs'' ''.stp''"
    by (simp_all add: endsWith_def)
  show "endsWith s ''.step'' \<or> endsWith s ''.stp'' \<Longrightarrow>
     \<not> endsWith s ''.iges'' \<and> \<not> endsWith s ''.igs'' \<and> \<not> endsWith s ''.brep''"
    using n endsWith_both [of s "''.iges''" "''.step''"] endsWith_both [of s "''.igs''" "''.step''"]
      endsWith_both [of s "''.brep''" "''.step''"] endsWith_both [of s "''.stp''" "''.iges''"]
      endsWith_both [of s "''.stp''" "''.igs''"] endsWith_both [of s "''.stp''" "''.brep''"]
    by auto
  show "endsWith s ''.iges'' \<or> endsWith s ''.igs'' \<Longrightarrow> \<not> endsWith s ''.brep''"
    using n endsWith_both [of s "''.brep''" "''.iges''"] endsWith_both [of s "''.igs''" "''.brep''"]
    by auto
qed

lemma importFunction_of_cases:
  "endsWith s ''.step'' \<or> endsWith s ''.stp'' \<Longrightarrow> importFunction_of s = Some ReadStepFile"
  "endsWith s ''.iges'' \<or> endsWith s ''.igs'' \<Longrightarrow> importFunction_of s = Some ReadIgesFile"
  "endsWith s ''.brep'' \<Longrightarrow> importFunction_of s = Some ReadBrepFile"
  "\<not> endsWith s ''.step'' \<Longrightarrow> \<not> endsWith s ''.stp'' \<Longrightarrow> \<not> endsWith s ''.iges'' \<Longrightarrow>
     \<not> endsWith s ''.igs'' \<Longrightarrow> \<not> endsWith s ''.brep'' \<Longrightarrow> importFunction_of s = None"
  using extensions_exclusive [of s] by (auto simp add: importFunction_of_def)

subsection \<open>No operation of the viewer calls the import library\<close>

lemma imports_of_append: "imports_of (xs @ ys) = imports_of xs @ imports_of ys"
  by (induction xs rule: imports_of.induct) simp_all

lemma imports_of_clear_calls: "imports_of (clear_calls ms) = []"
  by (induction ms) (simp_all add: clear_calls_def)

lemma imports_clearModel: "imports_of (calls (clearModel st)) = imports_of (calls st)"
  by (cases "modelGroup st")
    (simp_all add: clearModel_None clearModel_Some imports_of_append imports_of_clear_calls)

lemma imports_call_update:
  "imports_of (calls (call_update update st)) = imports_of (calls st)"
  by (simp add: call_update_calls imports_of_append)

lemma imports_animate: "imports_of (calls (animate update st)) = imports_of (calls st)"
  by (simp add: animate_def Let_def imports_call_update called_def imports_of_append)

lemma imports_initThreeDScene:
  "imports_of (calls (initThreeDScene update st)) = imports_of (calls st)"
  by (simp add: initThreeDScene_def imports_animate split: option.splits)

lemma imports_resetCameraView:
  "imports_of (calls (resetCameraView update st)) = imports_of (calls st)"
  by (simp add: resetCameraView_def Let_def imports_call_update split: option.splits)

lemma imports_renderModel_fit:
  "imports_of (calls (renderModel_fit update b st)) = imports_of (calls st)"
  by (simp add: renderModel_fit_def Let_def imports_call_update split: option.splits)

lemma imports_forEach:
  "imports_of (calls (snd (snd (renderModel_forEach md acc)))) = imports_of (calls (snd (snd acc)))"
  by (cases acc)
    (auto simp add: renderModel_forEach_def called_def Let_def imports_of_append)

lemma imports_fold_forEach:
  "imports_of (calls (snd (snd (fold renderModel_forEach mds acc)))) =
   imports_of (calls (snd (snd acc)))"
  by (induction mds arbitrary: acc) (simp_all add: imports_forEach)

lemma imports_renderModel: "imports_of (calls (renderModel update r st)) = imports_of (calls st)"
proof -
  have l: "imports_of (calls st3) = imports_of (calls st2)"
    if "fold renderModel_forEach mds (None, True, st2) = (b, f, st3)" for mds st2 b f st3
    using imports_fold_forEach [of mds "(None, True, st2)"] that by simp
  show ?thesis
    by (auto simp add: renderModel_def Let_def imports_resetCameraView imports_renderModel_fit
          imports_clearModel imports_initThreeDScene l split: option.splits prod.splits)
qed

subsection \<open>\<open>processFile\<close> case by case\<close>

lemma started_fields:
  "selectedFile_value (started st) = selectedFile_value st"
  "modelGroup (started st) = map_option (\<lambda>children. []) (modelGroup st)"
  "calls (started st) = calls (clearModel st)"
  "console (started st) = console st"
  by (cases "modelGroup st"; simp add: started_def clearModel_def clearModel_loop_eq)+

lemma called_selectedFile: "selectedFile_value (called cs st) = selectedFile_value st"
  by (simp add: called_def)

lemma processFile_started:
  "fileContent_value st = Some content \<Longrightarrow>
   processFile update occtimportjs cv st =
     processFile_finally
       (processFile_catch (processFile_try update occtimportjs cv content (started st)))"
  by (simp add: processFile_def started_def Let_def)

text \<open>The library's initialisation throws a value that is not \<open>null\<close> or
  \<open>undefined\<close>.\<close>

lemma processFile_init_throws:
  assumes "fileContent_value st = Some content"
  shows "processFile update (Inl (Thrown m)) cv st =
    Normal ((started st)\<lparr>
      error_value := Some (''Error during OCCT import: '' @ js_string m),
      console := console st @ [ConsoleError (js_string m)],
      calls := calls (clearModel st) @ [Occtimportjs],
      loading_value := False\<rparr>)"
  by (simp add: processFile_started [OF assms] processFile_try_def called_def Let_def
        started_fields)

text \<open>The library's initialisation throws \<open>null\<close> or \<open>undefined\<close>: the \<open>catch\<close> block
  throws in its turn.\<close>

lemma processFile_init_throws_null:
  assumes "fileContent_value st = Some content"
  shows "processFile update (Inl ThrownNull) cv st =
    Throws (TypeError ''Cannot read properties of null'')
      ((started st)\<lparr>calls := calls (clearModel st) @ [Occtimportjs],
                     loading_value := False\<rparr>)"
  by (simp add: processFile_started [OF assms] processFile_try_def called_def Let_def
        started_fields)

text \<open>The file name has none of the five extensions.\<close>

lemma processFile_unsupported:
  assumes "fileContent_value st = Some content" and "selectedFile_value st = Some file_name"
    and "importFunction_of (toLowerCase file_name) = None"
  shows "processFile update (Inr occt) cv st =
    Normal ((started st)\<lparr>
      error_value := Some ''Unsupported file type. Please select .step, .iges, or .brep.'',
      calls := calls (clearModel st) @ [Occtimportjs],
      loading_value := False\<rparr>)"
  using assms(2,3)
  by (simp add: processFile_started [OF assms(1)] processFile_try_def called_def Let_def
        started_fields)

text \<open>The chosen entry point throws.\<close>

lemma processFile_import_throws:
  assumes "fileContent_value st = Some content" and "selectedFile_value st = Some file_name"
    and "importFunction_of (toLowerCase file_name) = Some f"
    and "occt f content import_params = Inl (Thrown m)"
  shows "processFile update (Inr occt) cv st =
    Normal ((started st)\<lparr>
      error_value := Some (''Error during OCCT import: '' @ js_string m),
      console := console st @ [ConsoleError (js_string m)],
      calls := calls (clearModel st) @ [Occtimportjs, Import f],
      loading_value := False\<rparr>)"
  using assms(2,3,4)
  by (simp add: processFile_started [OF assms(1)] processFile_try_def called_def Let_def
        started_fields)

lemma processFile_import_throws_null:
  assumes "fileContent_value st = Some content" and "selectedFile_value st = Some file_name"
    and "importFunction_of (toLowerCase file_name) = Some f"
    and "occt f content import_params = Inl ThrownNull"
  shows "processFile update (Inr occt) cv st =
    Throws (TypeError ''Cannot read properties of null'')
      ((started st)\<lparr>calls := calls (clearModel st) @ [Occtimportjs, Import f],
                     loading_value := False\<rparr>)"
  using assms(2,3,4)
  by (simp add: processFile_started [OF assms(1)] processFile_try_def called_def Let_def
        started_fields)

text \<open>The chosen entry point returns a result that is no success.\<close>

lemma processFile_import_fails:
  assumes "fileContent_value st = Some content" and "selectedFile_value st = Some file_name"
    and "importFunction_of (toLowerCase file_name) = Some f"
    and "occt f content import_params = Inr r" and "\<not> success r"
  shows "processFile update (Inr occt) cv st =
    Normal ((started st)\<lparr>
      result_value := Some r,
      error_value := Some (''Import failed: '' @ error_or_unknown r),
      calls := calls (clearModel st) @ [Occtimportjs, Import f],
      loading_value := False\<rparr>)"
  using assms(2,3,4,5)
  by (simp add: processFile_started [OF assms(1)] processFile_try_def called_def Let_def
        started_fields)

text \<open>The chosen entry point returns a success: the model is rendered.\<close>

lemma processFile_import_succeeds:
  assumes "fileContent_value st = Some content" and "selectedFile_value st = Some file_name"
    and "importFunction_of (toLowerCase file_name) = Some f"
    and "occt f content import_params = Inr r" and "success r"
  shows "processFile update (Inr occt) cv st =
    Normal ((renderModel update (Some r)
       (nextTick cv ((called [Import f] (called [Occtimportjs] (started st)))
                       \<lparr>result_value := Some r\<rparr>)))
    \<lparr>loading_value := False\<rparr>)"
  using assms(2,3,4,5)
  by (simp add: processFile_started [OF assms(1)] processFile_try_def Let_def started_fields
        called_selectedFile)

lemma processFile_imports:
  assumes "fileContent_value st = Some content" and "selectedFile_value st = Some file_name"
    and "importFunction_of (toLowerCase file_name) = Some f"
  shows "imports_of (calls (state_of (processFile update (Inr occt) cv st))) =
    imports_of (calls st) @ [f]"
proof (cases "occt f content import_params")
  case (Inl e)
  show ?thesis
  proof (cases e)
    case ThrownNull
    show ?thesis
      using processFile_import_throws_null [of st content file_name f occt update cv]
        assms Inl ThrownNull
      by (simp add: imports_of_append imports_clearModel)
  next
    case (Thrown m)
    show ?thesis
      using processFile_import_throws [of st content file_name f occt m update cv]
        assms Inl Thrown
      by (simp add: imports_of_append imports_clearModel)
  qed
next
  case (Inr r)
  show ?thesis
  proof (cases "success r")
    case True
    show ?thesis
      using processFile_import_succeeds [of st content file_name f occt r update cv]
        assms Inr True
      by (simp add: imports_renderModel nextTick_def called_def started_fields
            imports_of_append imports_clearModel)
  next
    case False
    show ?thesis
      using processFile_import_fails [of st content file_name f occt r update cv]
        assms Inr False
      by (simp add: imports_of_append imports_clearModel)
  qed
qed

lemma lower_examples:
  "toLowerCase ''PART.STEP'' = ''part.step''"
  "toLowerCase ''part.step'' = ''part.step''"
  "toLowerCase ''drawing.dxf'' = ''drawing.dxf''"
  by (simp_all add: toLowerCase_def toLowerCase_char_def char_of_def bit_Suc_0_iff)

lemma dispatch_examples:
  "importFunction_of ''part.step'' = Some ReadStepFile"
  "importFunction_of ''drawing.dxf'' = None"
  "endsWith ''part.step'' ''.step''"
  by (simp_all add: importFunction_of_def endsWith_def)

lemma state_with_file_fields:
  "fileContent_value (state_with_file nm) = Some [83, 84, 69, 80]"
  "selectedFile_value (state_with_file nm) = Some nm"
  "modelGroup (state_with_file nm) = None"
  "calls (state_with_file nm) = []"
  by (simp_all add: state_with_file_def state_initial_def)

lemma state_shown_fields:
  "modelGroup state_shown =
     Some (materialized 0 [record_no_position, record_triangle, record_no_index, record_triangle])"
  by (simp add: state_shown_def example_valid)

text \<open>
  C4, as the code has it. \<open>processFile\<close> awaits the import library's initialisation
  first, for every file name. When that has succeeded, the lower-cased name decides:
  a name ending in \<open>.step\<close> or \<open>.stp\<close> has \<open>ReadStepFile\<close> invoked, \<open>.iges\<close> or \<open>.igs\<close>
  \<open>ReadIgesFile\<close>, \<open>.brep\<close> \<open>ReadBrepFile\<close>, each exactly once and no other entry
  point; for every other name no entry point is invoked, the message is the
  "unsupported file type" one, and the initialisation is the only call made. When the
  initialisation throws, no entry point is invoked, whatever the name and whatever is
  thrown, and the message reports the thrown value's \<open>message\<close> when that value is not
  \<open>null\<close> or \<open>undefined\<close>.
\<close>

theorem processFile_dispatch:
  assumes "fileContent_value st = Some content" and "selectedFile_value st = Some file_name"
  shows
    "(endsWith (toLowerCase file_name) ''.step'' \<or> endsWith (toLowerCase file_name) ''.stp'' \<longrightarrow>
        imports_of (calls (state_of (processFile update (Inr occt) cv st))) =
          imports_of (calls st) @ [ReadStepFile])
   \<and> (endsWith (toLowerCase file_name) ''.iges'' \<or> endsWith (toLowerCase file_name) ''.igs'' \<longrightarrow>
        imports_of (calls (state_of (processFile update (Inr occt) cv st))) =
          imports_of (calls st) @ [ReadIgesFile])
   \<and> (endsWith (toLowerCase file_name) ''.brep'' \<longrightarrow>
        imports_of (calls (state_of (processFile update (Inr occt) cv st))) =
          imports_of (calls st) @ [ReadBrepFile])
   \<and> (\<not> endsWith (toLowerCase file_name) ''.step'' \<and> \<not> endsWith (toLowerCase file_name) ''.stp''
      \<and> \<not> endsWith (toLowerCase file_name) ''.iges'' \<and> \<not> endsWith (toLowerCase file_name) ''.igs''
      \<and> \<not> endsWith (toLowerCase file_name) ''.brep'' \<longrightarrow>
        imports_of (calls (state_of (processFile update (Inr occt) cv st))) = imports_of (calls st)
        \<and> uncaught (processFile update (Inr occt) cv st) = None
        \<and> error_value (state_of (processFile update (Inr occt) cv st)) =
            Some ''Unsupported file type. Please select .step, .iges, or .brep.''
        \<and> calls (state_of (processFile update (Inr occt) cv st)) =
            calls (clearModel st) @ [Occtimportjs])
   \<and> imports_of (calls (state_of (processFile update (Inl e) cv st))) = imports_of (calls st)
   \<and> calls (state_of (processFile update (Inl e) cv st)) = calls (clearModel st) @ [Occtimportjs]
   \<and> error_value (state_of (processFile update (Inl (Thrown m)) cv st)) =
        Some (''Error during OCCT import: '' @ js_string m)"
proof -
  have sel: "imports_of (calls (state_of (processFile update (Inr occt) cv st))) =
      imports_of (calls st) @ [f]"
    if "importFunction_of (toLowerCase file_name) = Some f" for f
    using assms that by (rule processFile_imports)
  have none: "imports_of (calls (state_of (processFile update (Inr occt) cv st))) =
          imports_of (calls st)
        \<and> uncaught (processFile update (Inr occt) cv st) = None
        \<and> error_value (state_of (processFile update (Inr occt) cv st)) =
            Some ''Unsupported file type. Please select .step, .iges, or .brep.''
        \<and> calls (state_of (processFile update (Inr occt) cv st)) =
            calls (clearModel st) @ [Occtimportjs]"
    if "importFunction_of (toLowerCase file_name) = None"
    by (simp add: processFile_unsupported [OF assms that] imports_of_append imports_clearModel)
  have thr: "imports_of (calls (state_of (processFile update (Inl e) cv st))) =
        imports_of (calls st)
      \<and> calls (state_of (processFile update (Inl e) cv st)) =
        calls (clearModel st) @ [Occtimportjs]"
    by (cases e)
      (simp_all add: processFile_init_throws [OF assms(1)]
         processFile_init_throws_null [OF assms(1)] imports_of_append imports_clearModel)
  have msg: "error_value (state_of (processFile update (Inl (Thrown m)) cv st)) =
        Some (''Error during OCCT import: '' @ js_string m)"
    by (simp add: processFile_init_throws [OF assms(1)])
  have c1: "endsWith (toLowerCase file_name) ''.step'' \<or> endsWith (toLowerCase file_name) ''.stp'' \<longrightarrow>
        imports_of (calls (state_of (processFile update (Inr occt) cv st))) =
          imports_of (calls st) @ [ReadStepFile]"
    using sel [OF importFunction_of_cases(1)] by (rule impI)
  have c2: "endsWith (toLowerCase file_name) ''.iges'' \<or> endsWith (toLowerCase file_name) ''.igs'' \<longrightarrow>
        imports_of (calls (state_of (processFile update (Inr occt) cv st))) =
          imports_of (calls st) @ [ReadIgesFile]"
    using sel [OF importFunction_of_cases(2)] by (rule impI)
  have c3: "endsWith (toLowerCase file_name) ''.brep'' \<longrightarrow>
        imports_of (calls (state_of (processFile update (Inr occt) cv st))) =
          imports_of (calls st) @ [ReadBrepFile]"
    using sel [OF importFunction_of_cases(3)] by (rule impI)
  have c4: "\<not> endsWith (toLowerCase file_name) ''.step'' \<and> \<not> endsWith (toLowerCase file_name) ''.stp''
      \<and> \<not> endsWith (toLowerCase file_name) ''.iges'' \<and> \<not> endsWith (toLowerCase file_name) ''.igs''
      \<and> \<not> endsWith (toLowerCase file_name) ''.brep'' \<longrightarrow>
        imports_of (calls (state_of (processFile update (Inr occt) cv st))) = imports_of (calls st)
        \<and> uncaught (processFile update (Inr occt) cv st) = None
        \<and> error_value (state_of (processFile update (Inr occt) cv st)) =
            Some ''Unsupported file type. Please select .step, .iges, or .brep.''
        \<and> calls (state_of (processFile update (Inr occt) cv st)) =
            calls (clearModel st) @ [Occtimportjs]"
  proof
    assume a: "\<not> endsWith (toLowerCase file_name) ''.step'' \<and> \<not> endsWith (toLowerCase file_name) ''.stp''
      \<and> \<not> endsWith (toLowerCase file_name) ''.iges'' \<and> \<not> endsWith (toLowerCase file_name) ''.igs''
      \<and> \<not> endsWith (toLowerCase file_name) ''.brep''"
    have "importFunction_of (toLowerCase file_name) = None"
      using a by (intro importFunction_of_cases(4)) simp_all
    then show "imports_of (calls (state_of (processFile update (Inr occt) cv st))) =
          imports_of (calls st)
        \<and> uncaught (processFile update (Inr occt) cv st) = None
        \<and> error_value (state_of (processFile update (Inr occt) cv st)) =
            Some ''Unsupported file type. Please select .step, .iges, or .brep.''
        \<and> calls (state_of (processFile update (Inr occt) cv st)) =
            calls (clearModel st) @ [Occtimportjs]"
      by (rule none)
  qed
  show ?thesis
    by (rule conjI [OF c1 conjI [OF c2 conjI [OF c3 conjI [OF c4
          conjI [OF conjunct1 [OF thr] conjI [OF conjunct2 [OF thr] msg]]]]]])
qed

theorem processFile_dispatch_witness:
  "fileContent_value (state_with_file ''PART.STEP'') = Some [83, 84, 69, 80]
   \<and> selectedFile_value (state_with_file ''PART.STEP'') = Some ''PART.STEP''
   \<and> endsWith (toLowerCase ''PART.STEP'') ''.step''
   \<and> (\<forall>update. imports_of (calls (state_of (processFile update (Inr occt_triangle)
         canvas_example (state_with_file ''PART.STEP'')))) = [ReadStepFile])"
  using processFile_dispatch [OF state_with_file_fields(1) state_with_file_fields(2),
          of "''PART.STEP''" _ occt_triangle canvas_example]
  by (simp add: state_with_file_fields lower_examples dispatch_examples)

text \<open>
  C4 as stated fails for the name \<open>drawing.dxf\<close>: the library's initialisation is
  invoked although the extension is not supported, and when it throws, the message is
  the one of that error, not "unsupported file type".
\<close>

theorem processFile_dispatch_counterexample:
  "importFunction_of (toLowerCase ''drawing.dxf'') = None
   \<and> calls (state_of (processFile OrbitControls_update (Inr occt_triangle) canvas_example
        (state_with_file ''drawing.dxf''))) = [Occtimportjs]
   \<and> calls (state_of (processFile OrbitControls_update (Inl (Thrown (Some ''wasm not found'')))
        canvas_example (state_with_file ''drawing.dxf''))) = [Occtimportjs]
   \<and> error_value (state_of (processFile OrbitControls_update
        (Inl (Thrown (Some ''wasm not found''))) canvas_example
        (state_with_file ''drawing.dxf''))) = Some ''Error during OCCT import: wasm not found''"
proof -
  have n: "importFunction_of (toLowerCase ''drawing.dxf'') = None"
    by (simp add: lower_examples dispatch_examples)
  have c: "clearModel (state_with_file ''drawing.dxf'') = state_with_file ''drawing.dxf''"
    by (simp add: clearModel_None state_with_file_fields)
  show ?thesis
    by (simp add: n c processFile_unsupported [OF state_with_file_fields(1)
            state_with_file_fields(2) n]
          processFile_init_throws [OF state_with_file_fields(1)] state_with_file_fields
          js_string_def)
qed

subsection \<open>Failures of the import library\<close>

text \<open>
  When the import library returns a result with \<open>success = false\<close>, or throws a value
  other than \<open>null\<close> and \<open>undefined\<close> (while it is initialised or in the chosen entry
  point), \<open>processFile\<close> ends normally, with one error message, the loading flag off and
  no mesh in the model group; the message carries the reason: the thrown value's
  \<open>message\<close>, or the result's \<open>error\<close> when it is there and not empty. When the library
  throws \<open>null\<close> or \<open>undefined\<close>, the \<open>catch\<close> block itself throws a \<open>TypeError\<close> on reading
  \<open>e.message\<close>: \<open>processFile\<close> ends with that error uncaught and with no error message
  at all (the loading flag is off and the model group has no mesh).
\<close>

lemma processFile_failure_cases:
  assumes "fileContent_value st = Some content"
  shows
    "uncaught (processFile update (Inl (Thrown m)) cv st) = None
   \<and> failed_with (''Error during OCCT import: '' @ js_string m) st
       (state_of (processFile update (Inl (Thrown m)) cv st))
   \<and> (selectedFile_value st = Some file_name
      \<and> importFunction_of (toLowerCase file_name) = Some f
      \<and> occt f content import_params = Inl (Thrown m) \<longrightarrow>
        uncaught (processFile update (Inr occt) cv st) = None
        \<and> failed_with (''Error during OCCT import: '' @ js_string m) st
            (state_of (processFile update (Inr occt) cv st)))
   \<and> (selectedFile_value st = Some file_name
      \<and> importFunction_of (toLowerCase file_name) = Some f
      \<and> occt f content import_params = Inr r \<and> \<not> success r \<longrightarrow>
        uncaught (processFile update (Inr occt) cv st) = None
        \<and> failed_with (''Import failed: '' @ error_or_unknown r) st
            (state_of (processFile update (Inr occt) cv st))
        \<and> (\<forall>reason. error r = Some reason \<and> reason \<noteq> [] \<longrightarrow>
              error_value (state_of (processFile update (Inr occt) cv st)) =
                Some (''Import failed: '' @ reason)))
   \<and> (\<forall>reason. m = Some reason \<longrightarrow> js_string m = reason)
   \<and> uncaught (processFile update (Inl ThrownNull) cv st) =
       Some (TypeError ''Cannot read properties of null'')
   \<and> error_value (state_of (processFile update (Inl ThrownNull) cv st)) = None
   \<and> \<not> loading_value (state_of (processFile update (Inl ThrownNull) cv st))
   \<and> modelGroup (state_of (processFile update (Inl ThrownNull) cv st)) =
       map_option (\<lambda>children. []) (modelGroup st)
   \<and> (selectedFile_value st = Some file_name
      \<and> importFunction_of (toLowerCase file_name) = Some f
      \<and> occt f content import_params = Inl ThrownNull \<longrightarrow>
        uncaught (processFile update (Inr occt) cv st) =
          Some (TypeError ''Cannot read properties of null'')
        \<and> error_value (state_of (processFile update (Inr occt) cv st)) = None
        \<and> \<not> loading_value (state_of (processFile update (Inr occt) cv st))
        \<and> modelGroup (state_of (processFile update (Inr occt) cv st)) =
            map_option (\<lambda>children. []) (modelGroup st))"
proof -
  have se: "error_value (started st) = None"
    by (cases "modelGroup st"; simp add: started_def clearModel_def clearModel_loop_eq)
  have a1: "uncaught (processFile update (Inl (Thrown m)) cv st) = None"
    and a2: "failed_with (''Error during OCCT import: '' @ js_string m) st
       (state_of (processFile update (Inl (Thrown m)) cv st))"
    by (simp_all add: failed_with_def processFile_init_throws [OF assms] started_fields)
  have b: "uncaught (processFile update (Inr occt) cv st) = None
        \<and> failed_with (''Error during OCCT import: '' @ js_string m) st
            (state_of (processFile update (Inr occt) cv st))"
    if "selectedFile_value st = Some file_name"
      "importFunction_of (toLowerCase file_name) = Some f"
      "occt f content import_params = Inl (Thrown m)"
    using processFile_import_throws [of st content file_name f occt m update cv] assms that
    by (simp add: failed_with_def started_fields)
  have c: "uncaught (processFile update (Inr occt) cv st) = None
        \<and> failed_with (''Import failed: '' @ error_or_unknown r) st
            (state_of (processFile update (Inr occt) cv st))
        \<and> (\<forall>reason. error r = Some reason \<and> reason \<noteq> [] \<longrightarrow>
              error_value (state_of (processFile update (Inr occt) cv st)) =
                Some (''Import failed: '' @ reason))"
    if "selectedFile_value st = Some file_name"
      "importFunction_of (toLowerCase file_name) = Some f"
      "occt f content import_params = Inr r" "\<not> success r"
    using processFile_import_fails [of st content file_name f occt r update cv] assms that
    by (simp add: failed_with_def started_fields error_or_unknown_def)
  have d: "\<forall>reason. m = Some reason \<longrightarrow> js_string m = reason"
    by (simp add: js_string_def)
  have e1: "uncaught (processFile update (Inl ThrownNull) cv st) =
       Some (TypeError ''Cannot read properties of null'')"
    and e2: "error_value (state_of (processFile update (Inl ThrownNull) cv st)) = None"
    and e3: "\<not> loading_value (state_of (processFile update (Inl ThrownNull) cv st))"
    and e4: "modelGroup (state_of (processFile update (Inl ThrownNull) cv st)) =
       map_option (\<lambda>children. []) (modelGroup st)"
    by (simp_all add: processFile_init_throws_null [OF assms] started_fields se)
  have g: "uncaught (processFile update (Inr occt) cv st) =
          Some (TypeError ''Cannot read properties of null'')
        \<and> error_value (state_of (processFile update (Inr occt) cv st)) = None
        \<and> \<not> loading_value (state_of (processFile update (Inr occt) cv st))
        \<and> modelGroup (state_of (processFile update (Inr occt) cv st)) =
            map_option (\<lambda>children. []) (modelGroup st)"
    if "selectedFile_value st = Some file_name"
      "importFunction_of (toLowerCase file_name) = Some f"
      "occt f content import_params = Inl ThrownNull"
    using processFile_import_throws_null [of st content file_name f occt update cv] assms that
    by (simp add: started_fields se)
  have b': "selectedFile_value st = Some file_name
      \<and> importFunction_of (toLowerCase file_name) = Some f
      \<and> occt f content import_params = Inl (Thrown m) \<longrightarrow>
        uncaught (processFile update (Inr occt) cv st) = None
        \<and> failed_with (''Error during OCCT import: '' @ js_string m) st
            (state_of (processFile update (Inr occt) cv st))"
    using b by simp
  have c': "selectedFile_value st = Some file_name
      \<and> importFunction_of (toLowerCase file_name) = Some f
      \<and> occt f content import_params = Inr r \<and> \<not> success r \<longrightarrow>
        uncaught (processFile update (Inr occt) cv st) = None
        \<and> failed_with (''Import failed: '' @ error_or_unknown r) st
            (state_of (processFile update (Inr occt) cv st))
        \<and> (\<forall>reason. error r = Some reason \<and> reason \<noteq> [] \<longrightarrow>
              error_value (state_of (processFile update (Inr occt) cv st)) =
                Some (''Import failed: '' @ reason))"
    using c by simp
  have g': "selectedFile_value st = Some file_name
      \<and> importFunction_of (toLowerCase file_name) = Some f
      \<and> occt f content import_params = Inl ThrownNull \<longrightarrow>
        uncaught (processFile update (Inr occt) cv st) =
          Some (TypeError ''Cannot read properties of null'')
        \<and> error_value (state_of (processFile update (Inr occt) cv st)) = None
        \<and> \<not> loading_value (state_of (processFile update (Inr occt) cv st))
        \<and> modelGroup (state_of (processFile update (Inr occt) cv st)) =
            map_option (\<lambda>children. []) (modelGroup st)"
    using g by simp
  show ?thesis
    by (rule conjI [OF a1 conjI [OF a2 conjI [OF b' conjI [OF c' conjI [OF d
          conjI [OF e1 conjI [OF e2 conjI [OF e3 conjI [OF e4 g']]]]]]]]])
qed

lemma state_shown_with_file_fields:
  "fileContent_value state_shown_with_file = Some [83, 84, 69, 80]"
  "selectedFile_value state_shown_with_file = Some ''part.step''"
  "modelGroup state_shown_with_file =
     Some (materialized 0 [record_no_position, record_triangle, record_no_index, record_triangle])"
  "map_option (\<lambda>children. []) (modelGroup state_shown_with_file) = Some []"
  "\<exists>m1 m2. modelGroup state_shown_with_file = Some [m1, m2]"
  "imports_of (calls state_shown_with_file) = []"
  by (simp_all add: state_shown_with_file_def state_shown_fields example_valid)
    (simp add: state_shown_def state_viewer_def)

lemma occt_examples:
  "occt_failing ReadStepFile [83, 84, 69, 80] import_params =
     Inr \<lparr>success = False, error = Some ''unreadable file'', meshes = None\<rparr>"
  "occt_throwing ReadStepFile [83, 84, 69, 80] import_params =
     Inl (Thrown (Some ''memory access out of bounds''))"
  "occt_throwing_undefined ReadStepFile [83, 84, 69, 80] import_params = Inl ThrownNull"
  "importFunction_of (toLowerCase ''part.step'') = Some ReadStepFile"
  by (simp_all add: occt_failing_def occt_throwing_def occt_throwing_undefined_def
        lower_examples dispatch_examples)

text \<open>With two meshes shown and the file \<open>part.step\<close> loaded: a result that is no
  success, a thrown error and a thrown value without \<open>message\<close> each end with their
  message and an empty model group.\<close>

lemma processFile_failure_examples:
  "uncaught (processFile update (Inr occt_failing) cv state_shown_with_file) = None
   \<and> modelGroup (state_of (processFile update (Inr occt_failing) cv state_shown_with_file)) =
       Some []
   \<and> error_value (state_of (processFile update (Inr occt_failing) cv state_shown_with_file)) =
       Some ''Import failed: unreadable file''
   \<and> uncaught (processFile update (Inr occt_throwing) cv state_shown_with_file) = None
   \<and> modelGroup (state_of (processFile update (Inr occt_throwing) cv state_shown_with_file)) =
       Some []
   \<and> error_value (state_of (processFile update (Inr occt_throwing) cv state_shown_with_file)) =
       Some ''Error during OCCT import: memory access out of bounds''
   \<and> uncaught (processFile update (Inl (Thrown None)) cv state_shown_with_file) = None
   \<and> error_value (state_of (processFile update (Inl (Thrown None)) cv state_shown_with_file)) =
       Some ''Error during OCCT import: undefined''"
  using processFile_failure_cases [OF state_shown_with_file_fields(1),
        of update "Some ''memory access out of bounds''" cv "''part.step''" ReadStepFile
        occt_failing "\<lparr>success = False, error = Some ''unreadable file'', meshes = None\<rparr>"]
      processFile_failure_cases [OF state_shown_with_file_fields(1),
        of update "Some ''memory access out of bounds''" cv "''part.step''" ReadStepFile
        occt_throwing "\<lparr>success = False, error = None, meshes = None\<rparr>"]
      processFile_failure_cases [OF state_shown_with_file_fields(1),
        of update None cv "''part.step''" ReadStepFile
        occt_throwing "\<lparr>success = False, error = None, meshes = None\<rparr>"]
      state_shown_with_file_fields(2,4) occt_examples
  by (simp add: failed_with_def js_string_def error_or_unknown_def)

text \<open>
  C5 fails on the code when what the import library throws is \<open>null\<close> or \<open>undefined\<close>.
  With two meshes shown and the file \<open>part.step\<close> loaded, let the entry point
  \<open>ReadStepFile\<close> throw \<open>undefined\<close>: \<open>processFile\<close> ends with a \<open>TypeError\<close> that nothing
  catches (it is raised in the \<open>catch\<close> block, by \<open>e.message\<close>) and with no error message;
  the loading flag is off and the model group is empty. The same happens when the
  library's initialisation throws \<open>undefined\<close>.
\<close>

theorem processFile_uncaught_TypeError:
  "occt_throwing_undefined ReadStepFile [83, 84, 69, 80] import_params = Inl ThrownNull
   \<and> uncaught (processFile update (Inr occt_throwing_undefined) cv state_shown_with_file) =
       Some (TypeError ''Cannot read properties of null'')
   \<and> error_value (state_of (processFile update (Inr occt_throwing_undefined) cv
        state_shown_with_file)) = None
   \<and> \<not> loading_value (state_of (processFile update (Inr occt_throwing_undefined) cv
        state_shown_with_file))
   \<and> modelGroup (state_of (processFile update (Inr occt_throwing_undefined) cv
        state_shown_with_file)) = Some []
   \<and> imports_of (calls (state_of (processFile update (Inr occt_throwing_undefined) cv
        state_shown_with_file))) = [ReadStepFile]
   \<and> uncaught (processFile update (Inl ThrownNull) cv state_shown_with_file) =
       Some (TypeError ''Cannot read properties of null'')
   \<and> error_value (state_of (processFile update (Inl ThrownNull) cv state_shown_with_file)) =
       None"
proof -
  note c = processFile_failure_cases [OF state_shown_with_file_fields(1),
        of update None cv "''part.step''" ReadStepFile occt_throwing_undefined
        "\<lparr>success = False, error = None, meshes = None\<rparr>"]
  have i: "imports_of (calls (state_of (processFile update (Inr occt_throwing_undefined) cv
        state_shown_with_file))) = [ReadStepFile]"
    using processFile_imports [OF state_shown_with_file_fields(1,2) occt_examples(4),
        of update occt_throwing_undefined cv]
    by (simp only: state_shown_with_file_fields(6) append_Nil)
  show ?thesis
    using c i state_shown_with_file_fields(2,4) occt_examples
    by simp
qed

section \<open>Resource lifecycle\<close>

lemma new_calls_append: "calls st' = calls st @ cs \<Longrightarrow> new_calls st st' = cs"
  by (simp add: new_calls_def)

lemma geometry_disposals_append:
  "geometry_disposals (xs @ ys) = geometry_disposals xs @ geometry_disposals ys"
  by (induction xs rule: geometry_disposals.induct) simp_all

lemma material_disposals_append:
  "material_disposals (xs @ ys) = material_disposals xs @ material_disposals ys"
  by (induction xs rule: material_disposals.induct) simp_all

lemma disposals_traverse:
  "geometry_disposals (traverse_dispose ms) = map mesh_id ms"
  "material_disposals (traverse_dispose ms) = map mesh_id ms"
  by (induction ms) (simp_all add: traverse_dispose_def)

lemma disposals_clear_calls:
  "geometry_disposals (clear_calls ms) = map mesh_id ms"
  "material_disposals (clear_calls ms) = map mesh_id ms"
  by (induction ms) (simp_all add: clear_calls_def)

lemma onBeforeUnmount_calls:
  "calls (onBeforeUnmount st) =
     calls st
     @ (case animationFrameId_value st of
          None \<Rightarrow> []
        | Some h \<Rightarrow> if h \<noteq> 0 then [CancelAnimationFrame h] else [])
     @ (if renderer st = None then [] else [RendererDispose])
     @ (if controls st = None then [] else [ControlsDispose])
     @ (if scene st = None then []
        else traverse_dispose (case modelGroup st of None \<Rightarrow> [] | Some ms \<Rightarrow> ms))"
  by (auto simp add: onBeforeUnmount_def called_def Let_def split: option.splits)

lemma onBeforeUnmount_refs:
  "scene (onBeforeUnmount st) = None"
  "camera (onBeforeUnmount st) = None"
  "modelGroup (onBeforeUnmount st) = None"
  "well_formed st \<Longrightarrow> renderer (onBeforeUnmount st) = None"
  by (auto simp add: onBeforeUnmount_def called_def Let_def well_formed_def split: option.splits)

lemma initialized_fit:
  assumes "initialized st"
  shows "initialized (renderModel_fit update b st)"
    and "initialized (resetCameraView update st)"
    and "animationFrameId_value (renderModel_fit update b st) = animationFrameId_value st"
    and "animationFrameId_value (resetCameraView update st) = animationFrameId_value st"
proof -
  from assms obtain cam ctl where c: "camera st = Some cam" "controls st = Some ctl"
    by (auto simp add: initialized_def)
  have i: "initialized (st\<lparr>camera := Some cam', controls := Some ctl'\<rparr>)" for cam' ctl'
    using assms by (simp add: initialized_def)
  show "initialized (renderModel_fit update b st)"
    by (simp only: renderModel_fit_eq [OF c] initialized_call_update i)
  show "initialized (resetCameraView update st)"
    by (simp only: resetCameraView_eq [OF c] initialized_call_update i)
  show "animationFrameId_value (renderModel_fit update b st) = animationFrameId_value st"
    by (simp add: renderModel_fit_eq [OF c] call_update_fields)
  show "animationFrameId_value (resetCameraView update st) = animationFrameId_value st"
    by (simp add: resetCameraView_eq [OF c] call_update_fields)
qed

lemma renderModel_keeps:
  assumes "initialized st"
  shows "initialized (renderModel update r st)"
    and "animationFrameId_value (renderModel update r st) = animationFrameId_value st"
proof -
  have q: "initialized (materialize_all (records_of r) st)"
    using assms by (rule initialized_materialize_all)
  have a: "animationFrameId_value (materialize_all (records_of r) st) = animationFrameId_value st"
    by (simp add: materialize_all_def)
  show "initialized (renderModel update r st)"
    by (simp add: renderModel_initialized [OF assms] initialized_fit(1,2) [OF q])
  show "animationFrameId_value (renderModel update r st) = animationFrameId_value st"
    by (simp add: renderModel_initialized [OF assms] initialized_fit(3,4) [OF q] a)
qed

text \<open>
  C7, as the code has it. With the scene set up and a frame pending, \<open>onBeforeUnmount\<close>
  makes these calls, in this order: the pending frame callback is cancelled; the
  renderer is disposed; the interaction controller is disposed; then, for each mesh of
  the model group in turn, its geometry and then its material are disposed. No mesh
  is removed from the model group. At the end \<open>scene\<close>, \<open>camera\<close>, \<open>modelGroup\<close> (and
  \<open>renderer\<close>) are \<open>null\<close>; the traversal reads the scene before that.
\<close>

theorem onBeforeUnmount_order:
  assumes "initialized st" and "animationFrameId_value st = Some h" and "h \<noteq> 0"
    and "modelGroup st = Some ms"
  shows "new_calls st (onBeforeUnmount st) =
           [CancelAnimationFrame h, RendererDispose, ControlsDispose]
           @ concat (map (\<lambda>m. [GeometryDispose (mesh_id m), MaterialDispose (mesh_id m)]) ms)
       \<and> (\<forall>i. GroupRemove i \<notin> set (new_calls st (onBeforeUnmount st)))
       \<and> scene (onBeforeUnmount st) = None \<and> camera (onBeforeUnmount st) = None
       \<and> modelGroup (onBeforeUnmount st) = None \<and> renderer (onBeforeUnmount st) = None"
proof -
  from assms(1) obtain sc rd ctl where
    p: "scene st = Some sc" "renderer st = Some rd" "controls st = Some ctl"
    by (auto simp add: initialized_def)
  have "calls (onBeforeUnmount st) =
      calls st @ [CancelAnimationFrame h, RendererDispose, ControlsDispose] @ traverse_dispose ms"
    using assms(2,3,4) by (simp add: onBeforeUnmount_calls p)
  then have n: "new_calls st (onBeforeUnmount st) =
      [CancelAnimationFrame h, RendererDispose, ControlsDispose] @ traverse_dispose ms"
    by (rule new_calls_append)
  have w: "well_formed st"
    using assms(1) by (simp add: well_formed_def initialized_def)
  show ?thesis
    by (auto simp add: n onBeforeUnmount_refs w traverse_dispose_def)
qed

lemma state_shown_ready:
  "initialized state_shown" "animationFrameId_value state_shown = Some 1"
  by (simp_all add: state_shown_def initialized_def state_viewer_fields)

text \<open>The model group of \<open>state_shown\<close> is what \<open>renderModel\<close> leaves in the example
  viewer for the mixed result.\<close>

lemma state_shown_renderModel:
  "modelGroup (renderModel update (Some result_mixed) state_viewer) = modelGroup state_shown"
proof -
  have "scene state_viewer \<noteq> None \<or> threeCanvas_value state_viewer \<noteq> None"
    by (simp add: state_viewer_fields)
  from renderModel_group(1) [OF well_formed_state_viewer this, of update "Some result_mixed"]
  show ?thesis
    by (simp only: state_viewer_fields records_of_def result_mixed_def result_of_def
          importResult.simps Option.bind.simps option.case state_shown_fields)
qed

lemma state_shown_ids:
  "map mesh_id (materialized 0
     [record_no_position, record_triangle, record_no_index, record_triangle]) = [0, 1]"
  by (simp add: example_valid mesh_of_record_def)

lemma state_shown_unmount:
  "new_calls state_shown (onBeforeUnmount state_shown) =
     [CancelAnimationFrame 1, RendererDispose, ControlsDispose,
      GeometryDispose 0, MaterialDispose 0, GeometryDispose 1, MaterialDispose 1]"
proof -
  from state_shown_ready(1) obtain sc rd ctl where
    p: "scene state_shown = Some sc" "renderer state_shown = Some rd"
       "controls state_shown = Some ctl"
    by (auto simp add: initialized_def)
  have t: "traverse_dispose (materialized 0
            [record_no_position, record_triangle, record_no_index, record_triangle]) =
      [GeometryDispose 0, MaterialDispose 0, GeometryDispose 1, MaterialDispose 1]"
    by (simp add: traverse_dispose_def example_valid mesh_of_record_def)
  have "calls (onBeforeUnmount state_shown) =
      calls state_shown @ [CancelAnimationFrame 1, RendererDispose, ControlsDispose,
        GeometryDispose 0, MaterialDispose 0, GeometryDispose 1, MaterialDispose 1]"
    by (simp add: onBeforeUnmount_calls p state_shown_ready(2) state_shown_fields t
          del: materialized.simps)
  then show ?thesis
    by (rule new_calls_append)
qed

theorem onBeforeUnmount_order_witness:
  "initialized state_shown \<and> animationFrameId_value state_shown = Some 1
   \<and> map_option (map mesh_id) (modelGroup state_shown) = Some [0, 1]
   \<and> new_calls state_shown (onBeforeUnmount state_shown) =
       [CancelAnimationFrame 1, RendererDispose, ControlsDispose,
        GeometryDispose 0, MaterialDispose 0, GeometryDispose 1, MaterialDispose 1]
   \<and> scene (onBeforeUnmount state_shown) = None"
proof -
  have one: "(1::nat) \<noteq> 0" by simp
  have g: "map_option (map mesh_id) (modelGroup state_shown) = Some [0, 1]"
    by (simp only: state_shown_fields option.map state_shown_ids)
  have h: "concat (map (\<lambda>m. [GeometryDispose (mesh_id m), MaterialDispose (mesh_id m)])
          (materialized 0 [record_no_position, record_triangle, record_no_index, record_triangle]))
        = [GeometryDispose 0, MaterialDispose 0, GeometryDispose 1, MaterialDispose 1]"
    by (simp add: example_valid mesh_of_record_def)
  note t = onBeforeUnmount_order [OF state_shown_ready(1) state_shown_ready(2) one
            state_shown_fields]
  from t have "new_calls state_shown (onBeforeUnmount state_shown) =
      [CancelAnimationFrame 1, RendererDispose, ControlsDispose]
      @ concat (map (\<lambda>m. [GeometryDispose (mesh_id m), MaterialDispose (mesh_id m)])
          (materialized 0 [record_no_position, record_triangle, record_no_index, record_triangle]))"
    by (rule conjunct1)
  then have c: "new_calls state_shown (onBeforeUnmount state_shown) =
       [CancelAnimationFrame 1, RendererDispose, ControlsDispose,
        GeometryDispose 0, MaterialDispose 0, GeometryDispose 1, MaterialDispose 1]"
    by (simp only: h append.simps)
  from t have "scene (onBeforeUnmount state_shown) = None"
    by blast
  then show ?thesis
    using g state_shown_ready c by simp
qed

text \<open>
  C7 as stated fails: with two meshes shown, the renderer is disposed before the first
  geometry is, not after it, and no mesh is removed from the model group.
\<close>

theorem onBeforeUnmount_order_counterexample:
  "precedes RendererDispose (GeometryDispose 0) (new_calls state_shown (onBeforeUnmount state_shown))
   \<and> \<not> precedes (GeometryDispose 0) RendererDispose
         (new_calls state_shown (onBeforeUnmount state_shown))
   \<and> \<not> precedes (MaterialDispose 1) ControlsDispose
         (new_calls state_shown (onBeforeUnmount state_shown))
   \<and> GroupRemove 0 \<notin> set (new_calls state_shown (onBeforeUnmount state_shown))
   \<and> GroupRemove 1 \<notin> set (new_calls state_shown (onBeforeUnmount state_shown))"
  by (simp add: state_shown_unmount precedes_def)

text \<open>
  C8. After \<open>renderModel\<close> the meshes of the model group are pairwise different
  objects, and \<open>onBeforeUnmount\<close> disposes the geometry of each of them once and the
  material of each of them once: as many geometry disposals and as many material
  disposals as there are meshes, none twice, none missing. The same holds when the
  model is cleared instead (a new import): \<open>clearModel\<close> disposes each once, and a later
  \<open>onBeforeUnmount\<close> disposes nothing again.
\<close>

theorem teardown_disposes_each_mesh_once:
  assumes "well_formed st" and "scene st \<noteq> None \<or> threeCanvas_value st \<noteq> None"
    and "st' = renderModel update r st"
  shows "\<exists>ms. modelGroup st' = Some ms \<and> distinct (map mesh_id ms)
           \<and> geometry_disposals (new_calls st' (onBeforeUnmount st')) = map mesh_id ms
           \<and> material_disposals (new_calls st' (onBeforeUnmount st')) = map mesh_id ms
           \<and> length (geometry_disposals (new_calls st' (onBeforeUnmount st'))) = length ms
           \<and> length (material_disposals (new_calls st' (onBeforeUnmount st'))) = length ms
           \<and> geometry_disposals (new_calls st' (clearModel st')) = map mesh_id ms
           \<and> material_disposals (new_calls st' (clearModel st')) = map mesh_id ms
           \<and> geometry_disposals (new_calls (clearModel st') (onBeforeUnmount (clearModel st'))) = []
           \<and> material_disposals (new_calls (clearModel st') (onBeforeUnmount (clearModel st'))) = []"
proof -
  define ms where "ms = materialized (nextId st) (records_of r)"
  have g: "modelGroup st' = Some ms"
    using renderModel_group(1) [OF assms(1,2), of update r] by (simp add: assms(3) ms_def)
  have d: "distinct (map mesh_id ms)"
    by (simp add: ms_def materialized_ids)
  have "initialized (prepared update st)"
    using assms(1,2) by (rule prepared_initialized)
  then have "initialized st'"
    unfolding assms(3) renderModel_prepared [OF assms(1,2)] by (rule renderModel_keeps(1))
  then obtain sc where s: "scene st' = Some sc"
    by (auto simp add: initialized_def)
  define pre where "pre =
     (case animationFrameId_value st' of
        None \<Rightarrow> []
      | Some h \<Rightarrow> if h \<noteq> 0 then [CancelAnimationFrame h] else [])
     @ (if renderer st' = None then [] else [RendererDispose])
     @ (if controls st' = None then [] else [ControlsDispose])"
  have pre: "geometry_disposals pre = []" "material_disposals pre = []"
    by (simp_all add: pre_def geometry_disposals_append material_disposals_append
          split: option.splits)
  have "calls (onBeforeUnmount st') = calls st' @ (pre @ traverse_dispose ms)"
    by (simp add: onBeforeUnmount_calls s g pre_def)
  then have u: "new_calls st' (onBeforeUnmount st') = pre @ traverse_dispose ms"
    by (rule new_calls_append)
  have c: "clearModel st' = st'\<lparr>modelGroup := Some [], calls := calls st' @ clear_calls ms\<rparr>"
    using g by (rule clearModel_Some)
  have "calls (clearModel st') = calls st' @ clear_calls ms"
    by (simp add: c)
  then have v: "new_calls st' (clearModel st') = clear_calls ms"
    by (rule new_calls_append)
  define pre' where "pre' =
     (case animationFrameId_value (clearModel st') of
        None \<Rightarrow> []
      | Some h \<Rightarrow> if h \<noteq> 0 then [CancelAnimationFrame h] else [])
     @ (if renderer (clearModel st') = None then [] else [RendererDispose])
     @ (if controls (clearModel st') = None then [] else [ControlsDispose])"
  have pre': "geometry_disposals pre' = []" "material_disposals pre' = []"
    by (simp_all add: pre'_def geometry_disposals_append material_disposals_append
          split: option.splits)
  have "calls (onBeforeUnmount (clearModel st')) = calls (clearModel st') @ pre'"
    by (simp add: onBeforeUnmount_calls [of "clearModel st'"] pre'_def)
      (simp add: c traverse_dispose_def)
  then have w: "new_calls (clearModel st') (onBeforeUnmount (clearModel st')) = pre'"
    by (rule new_calls_append)
  show ?thesis
    using g d
    by (simp add: u v w pre pre' geometry_disposals_append material_disposals_append
          disposals_traverse disposals_clear_calls)
qed

theorem teardown_disposes_each_mesh_once_witness:
  "well_formed state_viewer \<and> scene state_viewer \<noteq> None
   \<and> (\<forall>update.
        map_option (map mesh_id)
          (modelGroup (renderModel update (Some result_mixed) state_viewer)) = Some [0, 1]
      \<and> geometry_disposals
          (new_calls (renderModel update (Some result_mixed) state_viewer)
             (onBeforeUnmount (renderModel update (Some result_mixed) state_viewer))) = [0, 1]
      \<and> material_disposals
          (new_calls (renderModel update (Some result_mixed) state_viewer)
             (onBeforeUnmount (renderModel update (Some result_mixed) state_viewer))) = [0, 1]
      \<and> geometry_disposals
          (new_calls (renderModel update (Some result_mixed) state_viewer)
             (clearModel (renderModel update (Some result_mixed) state_viewer))) = [0, 1]
      \<and> geometry_disposals
          (new_calls (clearModel (renderModel update (Some result_mixed) state_viewer))
             (onBeforeUnmount
                (clearModel (renderModel update (Some result_mixed) state_viewer)))) = [])"
proof -
  have h2: "scene state_viewer \<noteq> None \<or> threeCanvas_value state_viewer \<noteq> None"
    by (simp add: state_viewer_fields)
  have "map_option (map mesh_id) (modelGroup st') = Some [0, 1]
      \<and> geometry_disposals (new_calls st' (onBeforeUnmount st')) = [0, 1]
      \<and> material_disposals (new_calls st' (onBeforeUnmount st')) = [0, 1]
      \<and> geometry_disposals (new_calls st' (clearModel st')) = [0, 1]
      \<and> geometry_disposals (new_calls (clearModel st') (onBeforeUnmount (clearModel st'))) = []"
    if h3: "st' = renderModel update (Some result_mixed) state_viewer" for update st'
  proof -
    from teardown_disposes_each_mesh_once [OF well_formed_state_viewer h2 h3]
    obtain ms where
      m: "modelGroup st' = Some ms"
        "geometry_disposals (new_calls st' (onBeforeUnmount st')) = map mesh_id ms"
        "material_disposals (new_calls st' (onBeforeUnmount st')) = map mesh_id ms"
        "geometry_disposals (new_calls st' (clearModel st')) = map mesh_id ms"
        "geometry_disposals (new_calls (clearModel st') (onBeforeUnmount (clearModel st'))) = []"
      by blast
    have "modelGroup st' = Some (materialized 0
        [record_no_position, record_triangle, record_no_index, record_triangle])"
      using renderModel_group(1) [OF well_formed_state_viewer h2, of update "Some result_mixed"]
      by (simp only: h3 state_viewer_fields records_of_def result_mixed_def
            result_of_def importResult.simps Option.bind.simps option.case)
    then have "map mesh_id ms = [0, 1]"
      using m(1) state_shown_ids by simp
    then show ?thesis
      using m by simp
  qed
  then show ?thesis
    using well_formed_state_viewer by (simp add: state_viewer_fields)
qed

text \<open>
  C9. \<open>clearModel\<close> on a model group without children (or before the scene exists)
  leaves the state as it is: nothing is removed, nothing is disposed, no call is made.
  Clearing twice is clearing once. \<open>clearModel\<close> has no failing branch.
\<close>

theorem clearModel_idempotent:
  "(modelGroup st = None \<or> modelGroup st = Some [] \<longrightarrow> clearModel st = st)
   \<and> clearModel (clearModel st) = clearModel st
   \<and> new_calls (clearModel st) (clearModel (clearModel st)) = []"
proof -
  have a: "clearModel s = s" if "modelGroup s = None \<or> modelGroup s = Some []" for s
    using that by (auto simp add: clearModel_def)
  have "modelGroup (clearModel st) = None \<or> modelGroup (clearModel st) = Some []"
    by (cases "modelGroup st") (simp_all add: clearModel_None clearModel_Some)
  then have b: "clearModel (clearModel st) = clearModel st"
    by (rule a)
  show ?thesis
    using a [of st] by (simp add: b new_calls_def)
qed

theorem clearModel_idempotent_witness:
  "modelGroup state_viewer = Some []
   \<and> clearModel state_viewer = state_viewer
   \<and> clearModel (clearModel state_shown) = clearModel state_shown
   \<and> new_calls (clearModel state_shown) (clearModel (clearModel state_shown)) = []"
  using clearModel_idempotent [of state_viewer] clearModel_idempotent [of state_shown]
  by (simp add: state_viewer_fields new_calls_def)

section \<open>The three.js objects exist together in every reachable state\<close>

lemma well_formed_state_initial: "well_formed state_initial"
  by (simp add: well_formed_def state_initial_def)

lemma well_formed_call_update: "well_formed (call_update update st) = well_formed st"
  by (simp only: well_formed_def call_update_fields call_update_present)

lemma well_formed_called: "well_formed (called cs st) = well_formed st"
  by (simp add: well_formed_def called_def)

lemma well_formed_animate: "well_formed st \<Longrightarrow> well_formed (animate update st)"
proof -
  assume "well_formed st"
  then have "well_formed (st\<lparr>animationFrameId_value := Some (Suc (frameCounter st)),
      frameCounter := Suc (frameCounter st)\<rparr>)"
    by (simp add: well_formed_def)
  then show ?thesis
    by (simp add: animate_def Let_def well_formed_called well_formed_call_update)
qed

lemma initialized_wf: "initialized st \<Longrightarrow> well_formed st"
  by (simp add: well_formed_def initialized_def)

lemma well_formed_initThreeDScene: "well_formed st \<Longrightarrow> well_formed (initThreeDScene update st)"
proof (cases "threeCanvas_value st")
  case None
  then show "well_formed st \<Longrightarrow> well_formed (initThreeDScene update st)"
    by (simp add: initThreeDScene_def)
next
  case (Some cv)
  then have "initialized (initThreeDScene update st)"
    by (simp add: initialized_initThreeDScene)
  then show ?thesis
    by (rule initialized_wf)
qed

lemma well_formed_clearModel: "well_formed st \<Longrightarrow> well_formed (clearModel st)"
  by (cases "modelGroup st") (auto simp add: well_formed_def clearModel_None clearModel_Some)

lemma renderModel_unprepared:
  "scene st = None \<Longrightarrow> threeCanvas_value st = None \<Longrightarrow> renderModel update r st = st"
  by (simp add: renderModel_def initThreeDScene_def)

lemma well_formed_renderModel:
  assumes "well_formed st"
  shows "well_formed (renderModel update r st)"
proof (cases "scene st \<noteq> None \<or> threeCanvas_value st \<noteq> None")
  case True
  have "initialized (prepared update st)"
    using assms True by (rule prepared_initialized)
  then have "initialized (renderModel update r (prepared update st))"
    by (rule renderModel_keeps(1))
  then show ?thesis
    by (simp add: renderModel_prepared [OF assms True] initialized_wf)
next
  case False
  then show ?thesis
    using assms by (simp add: renderModel_unprepared)
qed

lemma well_formed_started: "well_formed st \<Longrightarrow> well_formed (started st)"
proof -
  assume "well_formed st"
  then have "well_formed (st\<lparr>loading_value := True, result_value := None, error_value := None\<rparr>)"
    by (simp add: well_formed_def)
  then show ?thesis
    unfolding started_def by (rule well_formed_clearModel)
qed

lemma well_formed_update:
  "well_formed st \<Longrightarrow> well_formed (st\<lparr>loading_value := l\<rparr>)"
  "well_formed st \<Longrightarrow> well_formed (st\<lparr>error_value := e\<rparr>)"
  "well_formed st \<Longrightarrow> well_formed (st\<lparr>result_value := x\<rparr>)"
  "well_formed st \<Longrightarrow> well_formed (st\<lparr>console := c\<rparr>)"
  "well_formed st \<Longrightarrow> well_formed (called cs st)"
  "well_formed st \<Longrightarrow> well_formed (nextTick cv st)"
  by (simp_all add: well_formed_def called_def nextTick_def)

lemma well_formed_processFile_try:
  assumes "well_formed st"
  shows "well_formed (state_of (processFile_try update occtimportjs cv content st))"
  using assms
  by (auto simp add: processFile_try_def Let_def well_formed_update well_formed_renderModel
        split: sum.splits option.splits)

lemma well_formed_catch_finally:
  "well_formed (state_of (processFile_finally (processFile_catch c))) = well_formed (state_of c)"
proof (cases c)
  case (Normal st)
  then show ?thesis
    by (simp add: well_formed_def)
next
  case (Throws e st)
  then show ?thesis
    by (cases "message e") (simp_all add: well_formed_def)
qed

lemma well_formed_processFile:
  assumes "well_formed st"
  shows "well_formed (state_of (processFile update occtimportjs cv st))"
proof (cases "fileContent_value st")
  case None
  then show ?thesis
    using assms by (simp add: processFile_def well_formed_update)
next
  case (Some content)
  show ?thesis
    by (simp only: processFile_started [OF Some] well_formed_catch_finally
          well_formed_processFile_try [OF well_formed_started [OF assms]])
qed

lemma well_formed_onBeforeUnmount: "well_formed st \<Longrightarrow> well_formed (onBeforeUnmount st)"
  by (simp add: well_formed_def onBeforeUnmount_refs)

end
